theory Spec2Isabelle
  imports Complex_Main
begin

section \<open>Numbers and JavaScript idioms\<close>

text \<open>
  The tax estimator is written in JavaScript. Its amounts are JavaScript numbers; they are
  modelled as exact rationals, so a theorem below is about the arithmetic the code asks
  for, not about the rounding error of IEEE doubles, and the values NaN and Infinity are
  outside the model (the NaN that the comparison of unparseable pay dates produces is
  modelled explicitly). An optional field of an object is an \<open>option\<close>; \<open>None\<close> stands
  for \<open>undefined\<close> and \<open>null\<close>. A string is a list of characters with codes below 256.

  Objects used as dictionaries are modelled as association lists over their own keys. In
  JavaScript \<open>obj[key]\<close> also finds the properties that every object inherits from
  \<open>Object.prototype\<close>, listed in \<open>objectPrototypeKeys\<close> below; they are functions or
  objects, hence truthy and not numbers, and a lookup that finds one is outside the model.
  A statement that depends on the outcome of a lookup that misses the own keys therefore
  assumes that the key is not one of these names.
\<close>

type_synonym number = rat

text \<open>\<open>roundToDollar(amount)\<close> is \<open>Math.round(amount)\<close>: the nearest integer, a tie going
  towards plus infinity.\<close>

definition roundToDollar :: "number \<Rightarrow> number" where
  "roundToDollar amount = of_int \<lfloor>amount + 1 / 2\<rfloor>"

definition objectPrototypeKeys :: "string list" where
  "objectPrototypeKeys =
    [''constructor'', ''__defineGetter__'', ''__defineSetter__'', ''hasOwnProperty'',
     ''__lookupGetter__'', ''__lookupSetter__'', ''isPrototypeOf'', ''propertyIsEnumerable'',
     ''toString'', ''valueOf'', ''__proto__'', ''toLocaleString'']"

text \<open>\<open>a || d\<close> on an optional number: \<open>undefined\<close> and \<open>0\<close> are falsy.\<close>

definition numOr :: "number option \<Rightarrow> number \<Rightarrow> number" where
  "numOr a d = (case a of None \<Rightarrow> d | Some v \<Rightarrow> if v = 0 then d else v)"

section \<open>Tax configuration (taxConfig.js)\<close>

text \<open>The \<open>Error\<close> thrown by the two lookup helpers: the tax year has no entry, or the
  filing status has none for that year.\<close>

datatype error =
    UnsupportedTaxYear int
  | UnsupportedFilingStatus string int

record TaxBracket =
  rate :: number
  min_b :: number
  max_b :: "number option"

type_synonym deductionTable = "(int \<times> (string \<times> number) list) list"
type_synonym bracketTable = "(int \<times> (string \<times> TaxBracket list) list) list"

definition SINGLE :: string where
  "SINGLE = ''single''"

definition MARRIED_FILING_JOINTLY :: string where
  "MARRIED_FILING_JOINTLY = ''married_filing_jointly''"

definition STANDARD_DEDUCTIONS :: deductionTable where
  "STANDARD_DEDUCTIONS =
    [(2025, [(SINGLE, 15000), (MARRIED_FILING_JOINTLY, 30000)]),
     (2026, [(SINGLE, 15400), (MARRIED_FILING_JOINTLY, 30800)])]"

definition bracket :: "number \<Rightarrow> number \<Rightarrow> number option \<Rightarrow> TaxBracket" where
  "bracket r lo hi = \<lparr>rate = r, min_b = lo, max_b = hi\<rparr>"

definition TAX_BRACKETS :: bracketTable where
  "TAX_BRACKETS =
    [(2025,
      [(SINGLE,
        [bracket (10 / 100) 0 (Some 11600),
         bracket (12 / 100) 11600 (Some 47150),
         bracket (22 / 100) 47150 (Some 100525),
         bracket (24 / 100) 100525 (Some 191950),
         bracket (32 / 100) 191950 (Some 243725),
         bracket (35 / 100) 243725 (Some 609350),
         bracket (37 / 100) 609350 None]),
       (MARRIED_FILING_JOINTLY,
        [bracket (10 / 100) 0 (Some 23200),
         bracket (12 / 100) 23200 (Some 94300),
         bracket (22 / 100) 94300 (Some 201050),
         bracket (24 / 100) 201050 (Some 383900),
         bracket (32 / 100) 383900 (Some 487450),
         bracket (35 / 100) 487450 (Some 731200),
         bracket (37 / 100) 731200 None])]),
     (2026,
      [(SINGLE,
        [bracket (10 / 100) 0 (Some 11900),
         bracket (12 / 100) 11900 (Some 48350),
         bracket (22 / 100) 48350 (Some 103050),
         bracket (24 / 100) 103050 (Some 196750),
         bracket (32 / 100) 196750 (Some 249825),
         bracket (35 / 100) 249825 (Some 624600),
         bracket (37 / 100) 624600 None]),
       (MARRIED_FILING_JOINTLY,
        [bracket (10 / 100) 0 (Some 23800),
         bracket (12 / 100) 23800 (Some 96700),
         bracket (22 / 100) 96700 (Some 206100),
         bracket (24 / 100) 206100 (Some 393500),
         bracket (32 / 100) 393500 (Some 499650),
         bracket (35 / 100) 499650 (Some 749500),
         bracket (37 / 100) 749500 None])])]"

text \<open>
  \<open>getStandardDeduction\<close> and \<open>getTaxBrackets\<close> read the module constants. Each is given
  first with the table as an argument, so that a statement about another schedule than
  the four built in can be made, and then at the module's own table. The test
  \<open>!STANDARD_DEDUCTIONS[taxYear][filingStatus]\<close> also rejects a deduction of \<open>0\<close>; an
  array of brackets is truthy even when empty. The tax year is a number, and no object
  inherits a property with the name of a number; the filing status is a string, and for
  a filing status among \<open>objectPrototypeKeys\<close> the code finds the inherited property and
  raises nothing, which these definitions do not model.
\<close>

definition getStandardDeductionFrom ::
  "deductionTable \<Rightarrow> int \<Rightarrow> string \<Rightarrow> error + number" where
  "getStandardDeductionFrom tbl taxYear filingStatus =
    (case map_of tbl taxYear of
       None \<Rightarrow> Inl (UnsupportedTaxYear taxYear)
     | Some byStatus \<Rightarrow>
        (case map_of byStatus filingStatus of
           None \<Rightarrow> Inl (UnsupportedFilingStatus filingStatus taxYear)
         | Some d \<Rightarrow>
            if d = 0 then Inl (UnsupportedFilingStatus filingStatus taxYear) else Inr d))"

definition getTaxBracketsFrom ::
  "bracketTable \<Rightarrow> int \<Rightarrow> string \<Rightarrow> error + TaxBracket list" where
  "getTaxBracketsFrom tbl taxYear filingStatus =
    (case map_of tbl taxYear of
       None \<Rightarrow> Inl (UnsupportedTaxYear taxYear)
     | Some byStatus \<Rightarrow>
        (case map_of byStatus filingStatus of
           None \<Rightarrow> Inl (UnsupportedFilingStatus filingStatus taxYear)
         | Some brackets \<Rightarrow> Inr brackets))"

definition getStandardDeduction :: "int \<Rightarrow> string \<Rightarrow> error + number" where
  "getStandardDeduction = getStandardDeductionFrom STANDARD_DEDUCTIONS"

definition getTaxBrackets :: "int \<Rightarrow> string \<Rightarrow> error + TaxBracket list" where
  "getTaxBrackets = getTaxBracketsFrom TAX_BRACKETS"

section \<open>Progressive tax calculation (calculator.js)\<close>

record TaxBracketResult = TaxBracket +
  incomeInBracket :: number
  taxFromBracket :: number

record TaxLiability =
  liability :: number
  bracketBreakdown :: "TaxBracketResult list"

text \<open>
  One pass of the body of the \<open>for\<close> loop up to the assignment of \<open>incomeInBracket\<close>:
  \<open>None\<close> is the \<open>continue\<close> of a bracket the income does not reach.
\<close>

definition incomeInBracketOf :: "number \<Rightarrow> number \<Rightarrow> TaxBracket \<Rightarrow> number option" where
  "incomeInBracketOf taxableIncome remainingIncome b =
    (case max_b b of
       None \<Rightarrow> Some remainingIncome
     | Some mx \<Rightarrow>
        (let bracketWidth = mx - min_b b in
         if taxableIncome \<le> min_b b then None
         else if taxableIncome \<ge> mx then Some (min bracketWidth remainingIncome)
         else Some (taxableIncome - min_b b)))"

definition bracketResult :: "TaxBracket \<Rightarrow> number \<Rightarrow> number \<Rightarrow> TaxBracketResult" where
  "bracketResult b inc tax =
    \<lparr>rate = rate b, min_b = min_b b, max_b = max_b b,
     incomeInBracket = roundToDollar inc, taxFromBracket = roundToDollar tax\<rparr>"

text \<open>
  The \<open>for\<close> loop over the brackets, with its three variables \<open>totalTax\<close>,
  \<open>remainingIncome\<close> and \<open>bracketBreakdown\<close>; it stops (\<open>break\<close>) as soon as no income
  remains.
\<close>

fun taxLoop ::
  "number \<Rightarrow> TaxBracket list \<Rightarrow> number \<Rightarrow> number \<Rightarrow> TaxBracketResult list
    \<Rightarrow> number \<times> TaxBracketResult list" where
  "taxLoop taxableIncome [] totalTax remainingIncome breakdown = (totalTax, breakdown)"
| "taxLoop taxableIncome (b # brackets) totalTax remainingIncome breakdown =
    (if remainingIncome \<le> 0 then (totalTax, breakdown)
     else
       (case incomeInBracketOf taxableIncome remainingIncome b of
          None \<Rightarrow> taxLoop taxableIncome brackets totalTax remainingIncome breakdown
        | Some inc \<Rightarrow>
            taxLoop taxableIncome brackets (totalTax + inc * rate b) (remainingIncome - inc)
              (breakdown @ [bracketResult b inc (inc * rate b)])))"

definition calculateTaxLiabilityFrom ::
  "bracketTable \<Rightarrow> number \<Rightarrow> int \<Rightarrow> string \<Rightarrow> error + TaxLiability" where
  "calculateTaxLiabilityFrom tbl taxableIncome taxYear filingStatus =
    (if taxableIncome \<le> 0 then Inr \<lparr>liability = 0, bracketBreakdown = []\<rparr>
     else
       (case getTaxBracketsFrom tbl taxYear filingStatus of
          Inl e \<Rightarrow> Inl e
        | Inr brackets \<Rightarrow>
           (case taxLoop taxableIncome brackets 0 taxableIncome [] of
              (totalTax, breakdown) \<Rightarrow>
                Inr \<lparr>liability = roundToDollar totalTax, bracketBreakdown = breakdown\<rparr>)))"

definition calculateTaxLiability :: "number \<Rightarrow> int \<Rightarrow> string \<Rightarrow> error + TaxLiability" where
  "calculateTaxLiability = calculateTaxLiabilityFrom TAX_BRACKETS"

section \<open>Entries and aggregation (calculator.js)\<close>

text \<open>
  Of a W-2 entry the calculator reads \<open>box1Wages\<close> and \<open>box2Withheld\<close>; of a paystub entry
  the label, the pay date and the four wage and withholding fields. The other fields of
  the two objects (identifier, pay frequency, informational amounts) are never read by the
  functions modelled here and are left out.

  A pay date is a string or a \<open>Date\<close>; the code only looks at its truthiness and at
  \<open>new Date(payDate).getTime()\<close>. \<open>NoDate\<close> is a missing or empty pay date, \<open>DateMs t\<close> a
  date with time value \<open>t\<close>, \<open>InvalidDate\<close> a non-empty value that does not parse, whose
  time value is NaN.
\<close>

record W2Entry =
  box1Wages :: "number option"
  box2Withheld :: "number option"

datatype dateValue = NoDate | InvalidDate | DateMs int

record PaystubEntry =
  label :: "string option"
  payDate :: dateValue
  ytdTaxableWages :: "number option"
  ytdFedWithheld :: "number option"
  currentTaxableWages :: "number option"
  currentFedWithheld :: "number option"

record Totals =
  totalWages :: number
  totalWithheld :: number

definition aggregateW2Entries :: "W2Entry list option \<Rightarrow> Totals" where
  "aggregateW2Entries w2Entries =
    (case w2Entries of
       None \<Rightarrow> \<lparr>totalWages = 0, totalWithheld = 0\<rparr>
     | Some [] \<Rightarrow> \<lparr>totalWages = 0, totalWithheld = 0\<rparr>
     | Some entries \<Rightarrow>
        \<lparr>totalWages =
           roundToDollar (foldl (\<lambda>sum entry. sum + numOr (box1Wages entry) 0) 0 entries),
         totalWithheld =
           roundToDollar (foldl (\<lambda>sum entry. sum + numOr (box2Withheld entry) 0) 0 entries)\<rparr>)"

text \<open>
  \<open>String.prototype.trim\<close> and \<open>toLowerCase\<close> on characters with codes below 256: the
  white space and line terminators are the codes 9 to 13, 32 and 160, and the capital
  letters are \<open>A\<close> to \<open>Z\<close> and the codes 192 to 222 without the multiplication sign 215,
  each 32 below its small letter.
\<close>

definition isWhiteSpace :: "char \<Rightarrow> bool" where
  "isWhiteSpace c = (of_char c \<in> {9, 10, 11, 12, 13, 32, 160 :: nat})"

definition trim :: "string \<Rightarrow> string" where
  "trim s = rev (dropWhile isWhiteSpace (rev (dropWhile isWhiteSpace s)))"

definition toLowerCase :: "string \<Rightarrow> string" where
  "toLowerCase s =
    map (\<lambda>c. let n = (of_char c :: nat)
            in if (65 \<le> n \<and> n \<le> 90) \<or> (192 \<le> n \<and> n \<le> 222 \<and> n \<noteq> 215)
               then char_of (n + 32) else c) s"

text \<open>\<open>(entry.label || 'Unlabeled').trim().toLowerCase()\<close>: the empty string is falsy.\<close>

definition employerKey :: "PaystubEntry \<Rightarrow> string" where
  "employerKey entry =
    toLowerCase (trim (case label entry of
                         None \<Rightarrow> ''Unlabeled''
                       | Some l \<Rightarrow> if l = [] then ''Unlabeled'' else l))"

text \<open>
  \<open>byEmployer\<close> is an object from employer key to the array of that employer's entries,
  filled by one pass over the entries: a new key is added after the existing ones, an
  entry of a known key is pushed to the end of its array. (For a key that is one of
  \<open>objectPrototypeKeys\<close> the code finds the inherited property in place of an array and
  its \<open>push\<close> raises a \<open>TypeError\<close>; the statements on the aggregation below assume that
  no key is one of them.)
\<close>

fun pushEntry ::
  "string \<Rightarrow> PaystubEntry \<Rightarrow> (string \<times> PaystubEntry list) list
    \<Rightarrow> (string \<times> PaystubEntry list) list" where
  "pushEntry k entry [] = [(k, [entry])]"
| "pushEntry k entry ((k', stubs) # byEmployer) =
    (if k' = k then (k', stubs @ [entry]) # byEmployer
     else (k', stubs) # pushEntry k entry byEmployer)"

definition groupByEmployer :: "PaystubEntry list \<Rightarrow> (string \<times> PaystubEntry list) list" where
  "groupByEmployer entries =
    foldl (\<lambda>byEmployer entry. pushEntry (employerKey entry) entry byEmployer) [] entries"

text \<open>
  The comparator given to \<open>sort\<close>. Its first \<open>if\<close> returns the difference of the time
  values when both pay dates are truthy and the time values differ; \<open>dateDifference\<close> is
  that early return, \<open>None\<close> when it is not taken. With an unparseable date the time value
  is NaN, \<open>NaN !== x\<close> holds and the difference returned is NaN, which
  \<open>Array.prototype.sort\<close> reads as \<open>0\<close>.
\<close>

fun dateDifference :: "dateValue \<Rightarrow> dateValue \<Rightarrow> number option" where
  "dateDifference (DateMs ta) (DateMs tb) =
    (if ta \<noteq> tb then Some (of_int tb - of_int ta) else None)"
| "dateDifference NoDate _ = None"
| "dateDifference _ NoDate = None"
| "dateDifference _ _ = Some 0"

definition comparePaystubs :: "PaystubEntry \<Rightarrow> PaystubEntry \<Rightarrow> number" where
  "comparePaystubs a b =
    (case dateDifference (payDate a) (payDate b) of
       Some d \<Rightarrow> d
     | None \<Rightarrow>
        (let wagesA = numOr (ytdTaxableWages a) 0;
             wagesB = numOr (ytdTaxableWages b) 0
         in wagesB - wagesA))"

text \<open>
  \<open>Array.prototype.sort\<close> is a stable sort; it is modelled as insertion sort. The language
  fixes the result only where the comparator is a consistent ordering of the array, and
  where it is, every stable sort gives the same result. Elsewhere an engine may order the
  array differently from insertion sort, and a statement on which entry is selected is
  made only for arrays that the comparator orders consistently.
\<close>

fun insertBy :: "('a \<Rightarrow> 'a \<Rightarrow> number) \<Rightarrow> 'a \<Rightarrow> 'a list \<Rightarrow> 'a list" where
  "insertBy cmp x [] = [x]"
| "insertBy cmp x (y # ys) =
    (if cmp x y \<le> 0 then x # y # ys else y # insertBy cmp x ys)"

definition arraySort :: "('a \<Rightarrow> 'a \<Rightarrow> number) \<Rightarrow> 'a list \<Rightarrow> 'a list" where
  "arraySort cmp xs = foldr (insertBy cmp) xs []"

text \<open>\<open>sorted[0]\<close>; every array of \<open>byEmployer\<close> has an element (lemma
  \<open>groupByEmployer_nonempty\<close> below), so the head exists.\<close>

definition latestStub :: "PaystubEntry list \<Rightarrow> PaystubEntry" where
  "latestStub stubs = hd (arraySort comparePaystubs stubs)"

definition stubWages :: "PaystubEntry \<Rightarrow> number" where
  "stubWages stub = numOr (ytdTaxableWages stub) (numOr (currentTaxableWages stub) 0)"

definition stubWithheld :: "PaystubEntry \<Rightarrow> number" where
  "stubWithheld stub = numOr (ytdFedWithheld stub) (numOr (currentFedWithheld stub) 0)"

text \<open>
  The body of the \<open>forEach\<close> over \<open>Object.values(byEmployer)\<close>, on the pair of running
  totals. \<open>Object.values\<close> lists the arrays in the order in which their keys were added
  (keys that look like array indices come first); the order only fixes the order of the
  additions, on which a sum of exact amounts does not depend.
\<close>

definition addEmployer :: "number \<times> number \<Rightarrow> PaystubEntry list \<Rightarrow> number \<times> number" where
  "addEmployer totals stubs =
    (let stub = latestStub stubs
     in (fst totals + stubWages stub, snd totals + stubWithheld stub))"

definition aggregatePaystubEntries :: "PaystubEntry list option \<Rightarrow> Totals" where
  "aggregatePaystubEntries paystubEntries =
    (case paystubEntries of
       None \<Rightarrow> \<lparr>totalWages = 0, totalWithheld = 0\<rparr>
     | Some [] \<Rightarrow> \<lparr>totalWages = 0, totalWithheld = 0\<rparr>
     | Some entries \<Rightarrow>
        (case foldl addEmployer (0, 0) (map snd (groupByEmployer entries)) of
           (wages, withheld) \<Rightarrow>
             \<lparr>totalWages = roundToDollar wages, totalWithheld = roundToDollar withheld\<rparr>))"

definition aggregateAllEntries :: "W2Entry list option \<Rightarrow> PaystubEntry list option \<Rightarrow> Totals" where
  "aggregateAllEntries w2Entries paystubEntries =
    (let w2Totals = aggregateW2Entries w2Entries;
         paystubTotals = aggregatePaystubEntries paystubEntries
     in \<lparr>totalWages = roundToDollar (totalWages w2Totals + totalWages paystubTotals),
         totalWithheld = roundToDollar (totalWithheld w2Totals + totalWithheld paystubTotals)\<rparr>)"

section \<open>Year-end projection (calculator.js)\<close>

record Projection =
  projectedWages :: number
  projectedWithheld :: number

definition projectYearEnd :: "PaystubEntry \<Rightarrow> number \<Rightarrow> Projection" where
  "projectYearEnd paystub paychecksRemaining =
    (let ytdWages = numOr (ytdTaxableWages paystub) 0;
         ytdWithheld = numOr (ytdFedWithheld paystub) 0;
         currentWages = numOr (currentTaxableWages paystub) 0;
         currentWithheld = numOr (currentFedWithheld paystub) 0;
         projectedAdditionalWages = currentWages * paychecksRemaining;
         projectedAdditionalWithheld = currentWithheld * paychecksRemaining
     in \<lparr>projectedWages = roundToDollar (ytdWages + projectedAdditionalWages),
         projectedWithheld = roundToDollar (ytdWithheld + projectedAdditionalWithheld)\<rparr>)"

section \<open>The estimate (calculator.js)\<close>

text \<open>
  \<open>calculatedAt\<close> is \<open>new Date()\<close>: the reading of the clock is an argument \<open>now\<close> of the
  model. The object argument of \<open>calculateFromSession\<close> is destructured in its parameter
  list and is given as four arguments (\<open>year\<close> and \<open>status\<close> for \<open>taxYear\<close> and
  \<open>filingStatus\<close>, which name fields here).
\<close>

record TaxCalculationInputs =
  totalWages :: number
  totalWithheld :: number
  standardDeduction :: number
  filingStatus :: string
  taxYear :: int

record Results =
  totalWages :: number
  totalWithheld :: number
  standardDeduction :: number
  taxableIncome :: number
  taxLiability :: number
  netDueRefund :: number
  isRefund :: bool
  refundAmount :: number
  amountDue :: number
  bracketBreakdown :: "TaxBracketResult list"
  calculatedAt :: int

definition calculateTaxEstimateFrom ::
  "bracketTable \<Rightarrow> int \<Rightarrow> TaxCalculationInputs \<Rightarrow> error + Results" where
  "calculateTaxEstimateFrom tbl now inputs =
    (let taxableIncome =
           max 0 (TaxCalculationInputs.totalWages inputs
                    - TaxCalculationInputs.standardDeduction inputs)
     in case calculateTaxLiabilityFrom tbl taxableIncome
               (taxYear inputs) (filingStatus inputs) of
          Inl e \<Rightarrow> Inl e
        | Inr r \<Rightarrow>
           (let liability = liability r;
                netDueRefund = liability - TaxCalculationInputs.totalWithheld inputs;
                isRefund = (netDueRefund < 0);
                refundAmount = (if isRefund then \<bar>netDueRefund\<bar> else 0);
                amountDue = (if \<not> isRefund then netDueRefund else 0)
            in Inr \<lparr>Results.totalWages =
                       roundToDollar (TaxCalculationInputs.totalWages inputs),
                     Results.totalWithheld =
                       roundToDollar (TaxCalculationInputs.totalWithheld inputs),
                     Results.standardDeduction =
                       roundToDollar (TaxCalculationInputs.standardDeduction inputs),
                     Results.taxableIncome = roundToDollar taxableIncome,
                     Results.taxLiability = roundToDollar liability,
                     Results.netDueRefund = roundToDollar netDueRefund,
                     Results.isRefund = isRefund,
                     Results.refundAmount = roundToDollar refundAmount,
                     Results.amountDue = roundToDollar amountDue,
                     Results.bracketBreakdown = TaxLiability.bracketBreakdown r,
                     Results.calculatedAt = now\<rparr>))"

definition calculateTaxEstimate :: "int \<Rightarrow> TaxCalculationInputs \<Rightarrow> error + Results" where
  "calculateTaxEstimate = calculateTaxEstimateFrom TAX_BRACKETS"

definition calculateFromSessionFrom ::
  "deductionTable \<Rightarrow> bracketTable \<Rightarrow> int \<Rightarrow> int \<Rightarrow> string
    \<Rightarrow> W2Entry list option \<Rightarrow> PaystubEntry list option \<Rightarrow> error + Results" where
  "calculateFromSessionFrom deductions brackets now year status w2Entries paystubEntries =
    (let totals = aggregateAllEntries w2Entries paystubEntries
     in case getStandardDeductionFrom deductions year status of
          Inl e \<Rightarrow> Inl e
        | Inr deduction \<Rightarrow>
            calculateTaxEstimateFrom brackets now
              \<lparr>TaxCalculationInputs.totalWages = Totals.totalWages totals,
               TaxCalculationInputs.totalWithheld = Totals.totalWithheld totals,
               TaxCalculationInputs.standardDeduction = deduction,
               TaxCalculationInputs.filingStatus = status,
               TaxCalculationInputs.taxYear = year\<rparr>)"

definition calculateFromSession ::
  "int \<Rightarrow> int \<Rightarrow> string \<Rightarrow> W2Entry list option \<Rightarrow> PaystubEntry list option
    \<Rightarrow> error + Results" where
  "calculateFromSession = calculateFromSessionFrom STANDARD_DEDUCTIONS TAX_BRACKETS"

section \<open>Notions used to state the properties\<close>

text \<open>A missing amount read as 0.\<close>

definition valueOr0 :: "number option \<Rightarrow> number" where
  "valueOr0 a = (case a of None \<Rightarrow> 0 | Some v \<Rightarrow> v)"

text \<open>Rounding to the nearest whole unit with a tie going away from zero.\<close>

definition roundHalfAwayFromZero :: "number \<Rightarrow> number" where
  "roundHalfAwayFromZero x = sgn x * of_int \<lfloor>\<bar>x\<bar> + 1 / 2\<rfloor>"

text \<open>
  A valid schedule: the bands are contiguous and ascending from 0, each of positive
  width, every rate is in \<open>(0, 1]\<close>, and the last band, and only the last, is unbounded.
\<close>

fun contiguousFrom :: "number \<Rightarrow> TaxBracket list \<Rightarrow> bool" where
  "contiguousFrom lo [] = False"
| "contiguousFrom lo (b # bs) =
    (min_b b = lo \<and> 0 < rate b \<and> rate b \<le> 1 \<and>
     (case max_b b of None \<Rightarrow> bs = [] | Some hi \<Rightarrow> lo < hi \<and> contiguousFrom hi bs))"

definition validSchedule :: "TaxBracket list \<Rightarrow> bool" where
  "validSchedule bs = contiguousFrom 0 bs"

text \<open>A schedule whose band bounds are whole amounts.\<close>

definition wholeBounds :: "TaxBracket list \<Rightarrow> bool" where
  "wholeBounds bs =
    list_all (\<lambda>b. min_b b \<in> \<int> \<and> (case max_b b of None \<Rightarrow> True | Some hi \<Rightarrow> hi \<in> \<int>)) bs"

text \<open>
  The brackets for which the loop reaches its \<open>push\<close>, each with the value the variable
  \<open>incomeInBracket\<close> has there, before it is rounded for the breakdown (lemma
  \<open>taxLoop_pushed\<close> below relates the loop to this list).
\<close>

fun pushed :: "number \<Rightarrow> TaxBracket list \<Rightarrow> number \<Rightarrow> (TaxBracket \<times> number) list" where
  "pushed income [] remainingIncome = []"
| "pushed income (b # brackets) remainingIncome =
    (if remainingIncome \<le> 0 then []
     else
       (case incomeInBracketOf income remainingIncome b of
          None \<Rightarrow> pushed income brackets remainingIncome
        | Some inc \<Rightarrow> (b, inc) # pushed income brackets (remainingIncome - inc)))"

text \<open>The part of an income that lies in a band: the income up to the band's upper bound,
  less the lower bound, and 0 when the income does not reach the band.\<close>

definition bandIncome :: "number \<Rightarrow> TaxBracket \<Rightarrow> number" where
  "bandIncome income b =
    max 0 ((case max_b b of None \<Rightarrow> income | Some hi \<Rightarrow> min income hi) - min_b b)"

text \<open>The entry of a two-level table, if it has one.\<close>

definition tableEntry :: "(int \<times> (string \<times> 'a) list) list \<Rightarrow> int \<Rightarrow> string \<Rightarrow> 'a option" where
  "tableEntry tbl year status =
    (case map_of tbl year of None \<Rightarrow> None | Some byStatus \<Rightarrow> map_of byStatus status)"

text \<open>The entries of one employer, in the order of the input.\<close>

definition employerGroup :: "string \<Rightarrow> PaystubEntry list \<Rightarrow> PaystubEntry list" where
  "employerGroup k entries = filter (\<lambda>entry. employerKey entry = k) entries"

text \<open>
  The order of a group: an entry ranks before another when both have a pay date and its
  date is the later one, and otherwise (equal dates, or a date missing or unparseable)
  when its year-to-date wages are higher.
\<close>

definition ranksBefore :: "PaystubEntry \<Rightarrow> PaystubEntry \<Rightarrow> bool" where
  "ranksBefore a b =
    (case (payDate a, payDate b) of
       (DateMs ta, DateMs tb) \<Rightarrow>
         tb < ta \<or> (ta = tb \<and> valueOr0 (ytdTaxableWages b) < valueOr0 (ytdTaxableWages a))
     | _ \<Rightarrow> valueOr0 (ytdTaxableWages b) < valueOr0 (ytdTaxableWages a))"

text \<open>A group in which every entry has a parseable pay date, or none has a pay date.\<close>

definition isDated :: "PaystubEntry \<Rightarrow> bool" where
  "isDated entry = (case payDate entry of DateMs t \<Rightarrow> True | _ \<Rightarrow> False)"

definition uniformDates :: "PaystubEntry list \<Rightarrow> bool" where
  "uniformDates stubs =
    (list_all isDated stubs \<or> list_all (\<lambda>entry. payDate entry = NoDate) stubs)"

text \<open>
  A group that the ranking orders consistently: no pay date is unparseable, and whenever
  an entry ranks before another, every entry of the group is ranked after the first or
  before the second. On such a group the comparator is a consistent ordering, negative
  exactly where its first argument ranks before its second. (Between an unparseable pay
  date and any other pay date the comparator returns NaN and compares no wages, so that
  it does not follow the ranking there.)
\<close>

definition noUnparseableDate :: "PaystubEntry list \<Rightarrow> bool" where
  "noUnparseableDate stubs = list_all (\<lambda>entry. payDate entry \<noteq> InvalidDate) stubs"

definition consistentRanking :: "PaystubEntry list \<Rightarrow> bool" where
  "consistentRanking stubs =
    (noUnparseableDate stubs \<and>
     list_all (\<lambda>a. list_all (\<lambda>b. list_all (\<lambda>c.
        ranksBefore a c \<longrightarrow> ranksBefore a b \<or> ranksBefore b c) stubs) stubs) stubs)"

section \<open>Rounding of whole amounts\<close>

lemma roundToDollar_of_int [simp]: "roundToDollar (of_int k) = of_int k"
proof -
  have "\<lfloor>(of_int k :: rat) + 1 / 2\<rfloor> = k" by linarith
  then show ?thesis by (simp add: roundToDollar_def)
qed

lemma roundToDollar_whole [simp]:
  "roundToDollar 0 = 0" "roundToDollar 1 = 1"
  "roundToDollar (numeral n) = numeral n" "roundToDollar (- numeral n) = - numeral n"
  using roundToDollar_of_int [of 0] roundToDollar_of_int [of 1]
    roundToDollar_of_int [of "numeral n"] roundToDollar_of_int [of "- numeral n"]
  by simp_all

lemma floor_rat_numeral [simp]:
  "\<lfloor>numeral a / numeral b :: rat\<rfloor> = numeral a div numeral b"
  "\<lfloor>1 / numeral b :: rat\<rfloor> = 1 div numeral b"
  "\<lfloor>- (numeral a / numeral b) :: rat\<rfloor> = - numeral a div numeral b"
  "\<lfloor>- (1 / numeral b) :: rat\<rfloor> = - 1 div numeral b"
  using floor_divide_of_int_eq [of "numeral a" "numeral b", where ?'a = rat]
    floor_divide_of_int_eq [of 1 "numeral b", where ?'a = rat]
    floor_divide_of_int_eq [of "- numeral a" "numeral b", where ?'a = rat]
    floor_divide_of_int_eq [of "- 1" "numeral b", where ?'a = rat]
  by simp_all

lemma roundToDollar_nearest:
  "roundToDollar x \<in> \<int>" "x - 1 / 2 < roundToDollar x" "roundToDollar x \<le> x + 1 / 2"
proof -
  show "roundToDollar x \<in> \<int>" by (simp add: roundToDollar_def)
  have "x + 1 / 2 < of_int \<lfloor>x + 1 / 2\<rfloor> + 1" by linarith
  then show "x - 1 / 2 < roundToDollar x" by (simp add: roundToDollar_def)
  have "of_int \<lfloor>x + 1 / 2\<rfloor> \<le> x + 1 / 2" by linarith
  then show "roundToDollar x \<le> x + 1 / 2" by (simp add: roundToDollar_def)
qed

lemma roundToDollar_away_iff:
  "(roundToDollar x = roundHalfAwayFromZero x) = (0 \<le> x \<or> x + 1 / 2 \<notin> \<int>)"
proof (cases "0 \<le> x")
  case True
  then show ?thesis
    by (cases "x = 0") (simp_all add: roundToDollar_def roundHalfAwayFromZero_def)
next
  case False
  then have neg: "x < 0" by simp
  then have r: "roundHalfAwayFromZero x = of_int \<lceil>x - 1 / 2\<rceil>"
    by (simp add: roundHalfAwayFromZero_def ceiling_def)
  show ?thesis
  proof (cases "x + 1 / 2 \<in> \<int>")
    case True
    then obtain k where k: "x + 1 / 2 = of_int k" by (auto elim: Ints_cases)
    then have "x - 1 / 2 = of_int (k - 1)" by simp
    then have "\<lceil>x - 1 / 2\<rceil> = k - 1" by (simp only: ceiling_of_int)
    moreover from k have "\<lfloor>x + 1 / 2\<rfloor> = k" by simp
    ultimately show ?thesis using True neg r by (simp add: roundToDollar_def)
  next
    case False
    have "x - 1 / 2 \<notin> \<int>"
    proof
      assume "x - 1 / 2 \<in> \<int>"
      then obtain k where "x - 1 / 2 = of_int k" by (auto elim: Ints_cases)
      then have "x + 1 / 2 = of_int (k + 1)" by simp
      then have "x + 1 / 2 \<in> \<int>" by (simp only: Ints_of_int)
      with False show False by simp
    qed
    then have "x - 1 / 2 \<noteq> of_int \<lfloor>x - 1 / 2\<rfloor>"
      by (metis Ints_of_int)
    then have "\<lceil>x - 1 / 2\<rceil> = \<lfloor>x - 1 / 2\<rfloor> + 1"
      by (simp add: ceiling_altdef)
    also have "\<dots> = \<lfloor>x + 1 / 2\<rfloor>"
    proof -
      have "x + 1 / 2 = (x - 1 / 2) + of_int 1" by simp
      then show ?thesis by (simp only: floor_add_int)
    qed
    finally show ?thesis using False neg r by (simp add: roundToDollar_def)
  qed
qed

lemma numOr_0: "numOr a 0 = valueOr0 a"
  by (simp add: numOr_def valueOr0_def split: option.splits)

lemmas table_defs =
  STANDARD_DEDUCTIONS_def TAX_BRACKETS_def SINGLE_def MARRIED_FILING_JOINTLY_def bracket_def

lemmas estimate_defs =
  calculateFromSession_def calculateFromSessionFrom_def aggregateAllEntries_def
  aggregateW2Entries_def aggregatePaystubEntries_def numOr_def
  getStandardDeductionFrom_def calculateTaxEstimateFrom_def calculateTaxLiabilityFrom_def
  getTaxBracketsFrom_def incomeInBracketOf_def bracketResult_def Let_def

section \<open>The bracket loop on a valid schedule\<close>

lemma taxLoop_pushed:
  "taxLoop T bs tot rem bd =
    (tot + (\<Sum>(b, inc) \<leftarrow> pushed T bs rem. inc * rate b),
     bd @ map (\<lambda>(b, inc). bracketResult b inc (inc * rate b)) (pushed T bs rem))"
  by (induction bs arbitrary: tot rem bd) (auto split: option.splits)

lemma contiguousFrom_lower: "contiguousFrom lo bs \<Longrightarrow> b \<in> set bs \<Longrightarrow> lo \<le> min_b b"
proof (induction bs arbitrary: lo)
  case Nil
  then show ?case by simp
next
  case (Cons a bs)
  show ?case
  proof (cases "b = a")
    case True
    with Cons.prems show ?thesis by simp
  next
    case False
    with Cons.prems have "b \<in> set bs" by simp
    with Cons.prems obtain hi where "lo < hi" "contiguousFrom hi bs"
      by (cases "max_b a") auto
    with Cons.IH [of hi] \<open>b \<in> set bs\<close> show ?thesis by simp
  qed
qed

lemma bandIncome_unreached:
  "contiguousFrom lo bs \<Longrightarrow> T \<le> lo \<Longrightarrow> b \<in> set bs \<Longrightarrow> bandIncome T b = 0"
  using contiguousFrom_lower [of lo bs b]
  by (auto simp: bandIncome_def split: option.splits)

lemma pushed_done: "rem \<le> 0 \<Longrightarrow> pushed T bs rem = []"
  by (cases bs) auto

lemma pushed_valid:
  "contiguousFrom lo bs \<Longrightarrow> lo < T \<Longrightarrow>
     pushed T bs (T - lo) = map (\<lambda>b. (b, bandIncome T b)) (filter (\<lambda>b. 0 < bandIncome T b) bs)"
proof (induction bs arbitrary: lo)
  case Nil
  then show ?case by simp
next
  case (Cons b bs)
  show ?case
  proof (cases "max_b b")
    case None
    with Cons.prems show ?thesis
      by (simp add: incomeInBracketOf_def bandIncome_def)
  next
    case (Some hi)
    with Cons.prems have c: "min_b b = lo" "lo < hi" "contiguousFrom hi bs" by auto
    show ?thesis
    proof (cases "hi < T")
      case True
      with Some c Cons.prems Cons.IH [of hi] show ?thesis
        by (simp add: incomeInBracketOf_def bandIncome_def min_def)
    next
      case False
      then have "T \<le> hi" by simp
      with c have z: "filter (\<lambda>b. 0 < bandIncome T b) bs = []"
        by (auto simp: filter_empty_conv dest: bandIncome_unreached)
      from False Some c Cons.prems z show ?thesis
        by (auto simp: incomeInBracketOf_def bandIncome_def min_def pushed_done)
    qed
  qed
qed


lemma bandIncome_nonneg: "0 \<le> bandIncome T b"
  by (simp add: bandIncome_def)

lemma bandIncome_mono: "a \<le> c \<Longrightarrow> bandIncome a b \<le> bandIncome c b"
  by (auto simp: bandIncome_def split: option.splits)

lemma sum_list_positive_part:
  fixes f :: "'a \<Rightarrow> number"
  assumes "\<And>x. 0 \<le> f x"
  shows "sum_list (map (\<lambda>x. g x * f x) (filter (\<lambda>x. 0 < f x) xs)) = sum_list (map (\<lambda>x. g x * f x) xs)"
proof (induction xs)
  case Nil
  then show ?case by simp
next
  case (Cons x xs)
  show ?case
  proof (cases "0 < f x")
    case True
    with Cons show ?thesis by simp
  next
    case False
    with assms [of x] have "f x = 0" by simp
    with Cons show ?thesis by simp
  qed
qed

lemma bandIncome_sum:
  "contiguousFrom lo bs \<Longrightarrow> lo \<le> T \<Longrightarrow> sum_list (map (bandIncome T) bs) = T - lo"
proof (induction bs arbitrary: lo)
  case Nil
  then show ?case by simp
next
  case (Cons b bs)
  show ?case
  proof (cases "max_b b")
    case None
    with Cons.prems show ?thesis by (simp add: bandIncome_def)
  next
    case (Some hi)
    with Cons.prems have c: "min_b b = lo" "lo < hi" "contiguousFrom hi bs" by auto
    show ?thesis
    proof (cases "hi \<le> T")
      case True
      with Some c Cons.IH [of hi] show ?thesis by (simp add: bandIncome_def)
    next
      case False
      then have "T \<le> hi" by simp
      with c have "\<forall>x\<in>set bs. bandIncome T x = 0"
        by (auto dest: bandIncome_unreached)
      then have "sum_list (map (bandIncome T) bs) = 0"
        by (induction bs) auto
      moreover from False Some c Cons.prems have "bandIncome T b = T - lo"
        by (simp add: bandIncome_def)
      ultimately show ?thesis by simp
    qed
  qed
qed

lemma pushed_income_sum:
  assumes "validSchedule bs" "0 < T"
  shows "sum_list (map snd (pushed T bs T)) = T"
proof -
  from assms have "pushed T bs T = map (\<lambda>b. (b, bandIncome T b)) (filter (\<lambda>b. 0 < bandIncome T b) bs)"
    using pushed_valid [of 0 bs T] by (simp add: validSchedule_def)
  then have "sum_list (map snd (pushed T bs T))
      = sum_list (map (\<lambda>b. 1 * bandIncome T b) (filter (\<lambda>b. 0 < bandIncome T b) bs))"
    by (simp add: comp_def)
  also have "\<dots> = sum_list (map (\<lambda>b. 1 * bandIncome T b) bs)"
    by (rule sum_list_positive_part) (rule bandIncome_nonneg)
  also from assms have "\<dots> = T"
    using bandIncome_sum [of 0 bs T] by (simp add: validSchedule_def)
  finally show ?thesis .
qed

lemma pushed_tax_sum:
  assumes "validSchedule bs" "0 < T"
  shows "(\<Sum>(b, inc) \<leftarrow> pushed T bs T. inc * rate b) = (\<Sum>b \<leftarrow> bs. rate b * bandIncome T b)"
proof -
  from assms have "pushed T bs T = map (\<lambda>b. (b, bandIncome T b)) (filter (\<lambda>b. 0 < bandIncome T b) bs)"
    using pushed_valid [of 0 bs T] by (simp add: validSchedule_def)
  then have "(\<Sum>(b, inc) \<leftarrow> pushed T bs T. inc * rate b)
      = sum_list (map (\<lambda>b. rate b * bandIncome T b) (filter (\<lambda>b. 0 < bandIncome T b) bs))"
    by (simp add: comp_def mult.commute)
  also have "\<dots> = sum_list (map (\<lambda>b. rate b * bandIncome T b) bs)"
    by (rule sum_list_positive_part) (rule bandIncome_nonneg)
  finally show ?thesis .
qed

lemma contiguousFrom_rate: "contiguousFrom lo bs \<Longrightarrow> b \<in> set bs \<Longrightarrow> 0 < rate b"
proof (induction bs arbitrary: lo)
  case Nil
  then show ?case by simp
next
  case (Cons a bs)
  show ?case
  proof (cases "b = a")
    case True
    with Cons.prems show ?thesis by simp
  next
    case False
    with Cons.prems have "b \<in> set bs" by simp
    with Cons.prems obtain hi where "contiguousFrom hi bs"
      by (cases "max_b a") auto
    with Cons.IH [of hi] \<open>b \<in> set bs\<close> show ?thesis by simp
  qed
qed

lemma roundToDollar_mono: "x \<le> y \<Longrightarrow> roundToDollar x \<le> roundToDollar y"
  by (simp add: roundToDollar_def floor_mono)

lemma scheduleTax_mono:
  assumes "validSchedule bs" "a \<le> c"
  shows "(\<Sum>b \<leftarrow> bs. rate b * bandIncome a b) \<le> (\<Sum>b \<leftarrow> bs. rate b * bandIncome c b)"
proof (rule sum_list_mono)
  fix b assume "b \<in> set bs"
  with assms have "0 < rate b" by (auto simp: validSchedule_def dest: contiguousFrom_rate)
  with bandIncome_mono [OF assms(2), of b]
  show "rate b * bandIncome a b \<le> rate b * bandIncome c b" by simp
qed

lemma scheduleTax_nonneg:
  assumes "validSchedule bs"
  shows "0 \<le> (\<Sum>b \<leftarrow> bs. rate b * bandIncome a b)"
proof (rule sum_list_nonneg)
  fix x assume "x \<in> set (map (\<lambda>b. rate b * bandIncome a b) bs)"
  then obtain b where b: "b \<in> set bs" "x = rate b * bandIncome a b" by auto
  with assms have "0 < rate b" by (auto simp: validSchedule_def dest: contiguousFrom_rate)
  with b bandIncome_nonneg [of a b] show "0 \<le> x" by simp
qed

lemma calculateTaxLiabilityFrom_valid:
  assumes "getTaxBracketsFrom tbl year status = Inr bs" "validSchedule bs" "0 < T"
  shows "calculateTaxLiabilityFrom tbl T year status
    = Inr \<lparr>liability = roundToDollar (\<Sum>b \<leftarrow> bs. rate b * bandIncome T b),
           TaxLiability.bracketBreakdown =
             map (\<lambda>(b, inc). bracketResult b inc (inc * rate b)) (pushed T bs T)\<rparr>"
  using assms pushed_tax_sum [of bs T]
  by (simp add: calculateTaxLiabilityFrom_def taxLoop_pushed)

lemma roundToDollar_Ints: "x \<in> \<int> \<Longrightarrow> roundToDollar x = x"
  by (auto elim: Ints_cases)

lemma bandIncome_Ints:
  assumes "T \<in> \<int>" "wholeBounds bs" "b \<in> set bs"
  shows "bandIncome T b \<in> \<int>"
proof -
  from assms have m: "min_b b \<in> \<int>" and h: "\<And>hi. max_b b = Some hi \<Longrightarrow> hi \<in> \<int>"
    by (auto simp: wholeBounds_def list_all_iff)
  show ?thesis
  proof (cases "max_b b")
    case None
    with assms(1) m show ?thesis by (simp add: bandIncome_def max_def)
  next
    case (Some hi)
    with assms(1) m h [of hi] show ?thesis by (simp add: bandIncome_def max_def min_def)
  qed
qed

lemma calculateTaxLiabilityFrom_pushed:
  assumes "0 < income" "tableEntry tbl year status = Some bs"
  shows "calculateTaxLiabilityFrom tbl income year status
    = Inr \<lparr>liability = roundToDollar (\<Sum>(b, inc) \<leftarrow> pushed income bs income. inc * rate b),
           TaxLiability.bracketBreakdown =
             map (\<lambda>(b, inc). bracketResult b inc (inc * rate b)) (pushed income bs income)\<rparr>"
  using assms
  by (auto simp: calculateTaxLiabilityFrom_def getTaxBracketsFrom_def tableEntry_def
      taxLoop_pushed split: option.splits)

text \<open>The four schedules of the module are valid, with whole bounds.\<close>

lemma TAX_BRACKETS_valid:
  assumes "getTaxBrackets year status = Inr bs"
  shows "validSchedule bs \<and> wholeBounds bs"
proof -
  from assms have "tableEntry TAX_BRACKETS year status = Some bs"
    by (auto simp: getTaxBrackets_def getTaxBracketsFrom_def tableEntry_def split: option.splits)
  then have "(year = 2025 \<or> year = 2026) \<and> (status = SINGLE \<or> status = MARRIED_FILING_JOINTLY)"
    by (auto simp: tableEntry_def TAX_BRACKETS_def split: if_splits)
  with assms show ?thesis
    by (auto simp: getTaxBrackets_def getTaxBracketsFrom_def table_defs validSchedule_def
        wholeBounds_def)
qed

section \<open>The stable sort and the selected paystub\<close>

lemma set_insertBy: "set (insertBy cmp x ys) = insert x (set ys)"
  by (induction ys) auto

lemma arraySort_Cons: "arraySort cmp (x # xs) = insertBy cmp x (arraySort cmp xs)"
  by (simp add: arraySort_def)

lemma set_arraySort: "set (arraySort cmp xs) = set xs"
proof (induction xs)
  case Nil
  show ?case by (simp add: arraySort_def)
next
  case (Cons x xs)
  then show ?case by (simp only: arraySort_Cons set_insertBy list.set)
qed

lemma hd_insertBy:
  "hd (insertBy cmp x ys) = (if ys = [] \<or> cmp x (hd ys) \<le> 0 then x else hd ys)"
  by (cases ys) auto

lemma arraySort_nonempty: "xs \<noteq> [] \<Longrightarrow> arraySort cmp xs \<noteq> []"
proof
  assume "xs \<noteq> []" "arraySort cmp xs = []"
  then have "set (arraySort cmp xs) = {}" by simp
  then have "set xs = {}" by (simp only: set_arraySort)
  with \<open>xs \<noteq> []\<close> show False by simp
qed

lemma hd_arraySort_in: "xs \<noteq> [] \<Longrightarrow> hd (arraySort cmp xs) \<in> set xs"
proof -
  assume "xs \<noteq> []"
  then have "hd (arraySort cmp xs) \<in> set (arraySort cmp xs)"
    by (intro hd_in_set arraySort_nonempty)
  then show ?thesis by (simp only: set_arraySort)
qed

lemma hd_arraySort_first:
  assumes tot: "\<And>x y. x \<in> set xs \<Longrightarrow> y \<in> set xs \<Longrightarrow> cmp x y \<le> 0 \<or> cmp y x \<le> 0"
    and trans: "\<And>x y z. x \<in> set xs \<Longrightarrow> y \<in> set xs \<Longrightarrow> z \<in> set xs
                 \<Longrightarrow> cmp x y \<le> 0 \<Longrightarrow> cmp y z \<le> 0 \<Longrightarrow> cmp x z \<le> 0"
    and "e \<in> set xs"
  shows "cmp (hd (arraySort cmp xs)) e \<le> 0"
  using assms
proof (induction xs arbitrary: e)
  case Nil
  from Nil.prems(3) show ?case by simp
next
  case (Cons x xs)
  have refl_x: "cmp x x \<le> 0"
    using Cons.prems(1) [of x x] by simp
  show ?case
  proof (cases "xs = []")
    case True
    with Cons.prems(3) have "e = x" by simp
    with True refl_x show ?thesis by (simp add: arraySort_def)
  next
    case False
    let ?h = "hd (arraySort cmp xs)"
    from False have hin: "?h \<in> set xs" by (rule hd_arraySort_in)
    from False have ne: "arraySort cmp xs \<noteq> []" by (rule arraySort_nonempty)
    have ih: "cmp ?h y \<le> 0" if y: "y \<in> set xs" for y
    proof (rule Cons.IH)
      show "y \<in> set xs" by fact
    next
      fix a b assume "a \<in> set xs" "b \<in> set xs"
      then show "cmp a b \<le> 0 \<or> cmp b a \<le> 0"
        by (intro Cons.prems(1)) simp_all
    next
      fix a b c assume "a \<in> set xs" "b \<in> set xs" "c \<in> set xs"
        and "cmp a b \<le> 0" "cmp b c \<le> 0"
      then show "cmp a c \<le> 0"
        by (intro Cons.prems(2) [of a b c]) simp_all
    qed
    show ?thesis
    proof (cases "cmp x ?h \<le> 0")
      case True
      with ne have hd: "hd (arraySort cmp (x # xs)) = x"
        by (simp add: arraySort_Cons hd_insertBy)
      show ?thesis
      proof (cases "e = x")
        case True
        with hd refl_x show ?thesis by simp
      next
        case False
        with Cons.prems(3) have e: "e \<in> set xs" by simp
        have "cmp x e \<le> 0"
        proof (rule Cons.prems(2) [of x ?h e])
          show "cmp x ?h \<le> 0" by fact
          show "cmp ?h e \<le> 0" using e by (rule ih)
        qed (use hin e in simp_all)
        with hd show ?thesis by simp
      qed
    next
      case False
      with ne have hd: "hd (arraySort cmp (x # xs)) = ?h"
        by (simp add: arraySort_Cons hd_insertBy)
      show ?thesis
      proof (cases "e = x")
        case True
        have "cmp x ?h \<le> 0 \<or> cmp ?h x \<le> 0"
          by (rule Cons.prems(1)) (use hin in simp_all)
        with False True hd show ?thesis by simp
      next
        case False
        with Cons.prems(3) have "e \<in> set xs" by simp
        then have "cmp ?h e \<le> 0" by (rule ih)
        with hd show ?thesis by simp
      qed
    qed
  qed
qed

section \<open>The comparator on a consistently ranked group\<close>

lemma comparePaystubs_dated:
  assumes "payDate a = DateMs ta" "payDate b = DateMs tb"
  shows "(comparePaystubs a b \<le> 0)
     = (tb < ta \<or> (ta = tb \<and> valueOr0 (ytdTaxableWages b) \<le> valueOr0 (ytdTaxableWages a)))"
proof (cases "ta = tb")
  case True
  with assms show ?thesis by (simp add: comparePaystubs_def numOr_0)
next
  case False
  with assms have "comparePaystubs a b = of_int tb - of_int ta"
    by (simp add: comparePaystubs_def)
  moreover have "((of_int tb :: rat) - of_int ta \<le> 0) = (tb \<le> ta)" by simp
  ultimately show ?thesis using False by auto
qed

lemma ranksBefore_asym: "ranksBefore a b \<Longrightarrow> \<not> ranksBefore b a"
  by (auto simp: ranksBefore_def split: dateValue.splits)

lemma comparePaystubs_le:
  assumes "payDate a \<noteq> InvalidDate" "payDate b \<noteq> InvalidDate"
  shows "(comparePaystubs a b \<le> 0) = (\<not> ranksBefore b a)"
proof (cases "payDate a")
  case NoDate
  then show ?thesis
    by (cases "payDate b") (simp_all add: comparePaystubs_def numOr_0 ranksBefore_def not_less)
next
  case InvalidDate
  with assms show ?thesis by simp
next
  case (DateMs ta)
  show ?thesis
  proof (cases "payDate b")
    case NoDate
    with DateMs show ?thesis
      by (simp add: comparePaystubs_def numOr_0 ranksBefore_def not_less)
  next
    case InvalidDate
    with assms show ?thesis by simp
  next
    case (DateMs tb)
    with \<open>payDate a = DateMs ta\<close> show ?thesis
      by (auto simp: comparePaystubs_dated ranksBefore_def)
  qed
qed

lemma consistentRanking_dates:
  "consistentRanking g \<Longrightarrow> a \<in> set g \<Longrightarrow> payDate a \<noteq> InvalidDate"
  by (simp add: consistentRanking_def noUnparseableDate_def list_all_iff)

lemma consistentRanking_between:
  "consistentRanking g \<Longrightarrow> a \<in> set g \<Longrightarrow> b \<in> set g \<Longrightarrow> c \<in> set g
     \<Longrightarrow> ranksBefore a c \<Longrightarrow> ranksBefore a b \<or> ranksBefore b c"
  by (simp add: consistentRanking_def list_all_iff)

lemma latestStub_in: "g \<noteq> [] \<Longrightarrow> latestStub g \<in> set g"
  unfolding latestStub_def by (rule hd_arraySort_in)

lemma latestStub_ranked_first:
  assumes c: "consistentRanking g" and e: "e \<in> set g"
  shows "\<not> ranksBefore e (latestStub g)"
proof -
  from e have "g \<noteq> []" by auto
  then have in_g: "latestStub g \<in> set g" by (rule latestStub_in)
  have "comparePaystubs (latestStub g) e \<le> 0"
    unfolding latestStub_def
  proof (rule hd_arraySort_first [where cmp = comparePaystubs and xs = g])
    show "e \<in> set g" by fact
  next
    fix x y assume xy: "x \<in> set g" "y \<in> set g"
    then have "payDate x \<noteq> InvalidDate" "payDate y \<noteq> InvalidDate"
      using c by (simp_all add: consistentRanking_dates)
    then have "(comparePaystubs x y \<le> 0) = (\<not> ranksBefore y x)"
      "(comparePaystubs y x \<le> 0) = (\<not> ranksBefore x y)"
      by (simp_all add: comparePaystubs_le)
    then show "comparePaystubs x y \<le> 0 \<or> comparePaystubs y x \<le> 0"
      using ranksBefore_asym [of x y] by blast
  next
    fix x y z assume m: "x \<in> set g" "y \<in> set g" "z \<in> set g"
      and xy: "comparePaystubs x y \<le> 0" and yz: "comparePaystubs y z \<le> 0"
    from m c have d: "payDate x \<noteq> InvalidDate" "payDate y \<noteq> InvalidDate"
      "payDate z \<noteq> InvalidDate"
      by (simp_all add: consistentRanking_dates)
    from xy d have 1: "\<not> ranksBefore y x" by (simp add: comparePaystubs_le)
    from yz d have 2: "\<not> ranksBefore z y" by (simp add: comparePaystubs_le)
    from consistentRanking_between [OF c m(3) m(2) m(1)] 1 2
    have "\<not> ranksBefore z x" by blast
    with d show "comparePaystubs x z \<le> 0" by (simp add: comparePaystubs_le)
  qed
  with c in_g e show ?thesis
    by (simp add: comparePaystubs_le consistentRanking_dates)
qed

lemma ranksBefore_dated:
  "payDate a = DateMs ta \<Longrightarrow> payDate b = DateMs tb \<Longrightarrow>
     ranksBefore a b
       = (tb < ta \<or> (ta = tb \<and> valueOr0 (ytdTaxableWages b) < valueOr0 (ytdTaxableWages a)))"
  by (simp add: ranksBefore_def)

lemma ranksBefore_undated:
  "payDate a = NoDate \<Longrightarrow> payDate b = NoDate \<Longrightarrow>
     ranksBefore a b = (valueOr0 (ytdTaxableWages b) < valueOr0 (ytdTaxableWages a))"
  by (simp add: ranksBefore_def)

lemma consistentRankingI:
  assumes "\<And>a. a \<in> set g \<Longrightarrow> payDate a \<noteq> InvalidDate"
    and "\<And>a b c. a \<in> set g \<Longrightarrow> b \<in> set g \<Longrightarrow> c \<in> set g \<Longrightarrow> ranksBefore a c
           \<Longrightarrow> ranksBefore a b \<or> ranksBefore b c"
  shows "consistentRanking g"
  unfolding consistentRanking_def noUnparseableDate_def list_all_iff
proof (intro conjI ballI impI)
  fix a assume "a \<in> set g"
  then show "payDate a \<noteq> InvalidDate" by (rule assms(1))
next
  fix a b c assume "a \<in> set g" "b \<in> set g" "c \<in> set g" "ranksBefore a c"
  then show "ranksBefore a b \<or> ranksBefore b c" by (rule assms(2))
qed

lemma uniformDates_consistent:
  assumes "uniformDates g"
  shows "consistentRanking g"
proof (cases "list_all isDated g")
  case True
  have d: "\<exists>t. payDate a = DateMs t" if "a \<in> set g" for a
  proof -
    from True that have "isDated a" by (simp add: list_all_iff)
    then show ?thesis by (cases "payDate a") (simp_all add: isDated_def)
  qed
  show ?thesis
  proof (rule consistentRankingI)
    fix a assume "a \<in> set g"
    with d [of a] show "payDate a \<noteq> InvalidDate" by auto
  next
    fix a b c assume m: "a \<in> set g" "b \<in> set g" "c \<in> set g" and r: "ranksBefore a c"
    from d [OF m(1)] obtain ta where a: "payDate a = DateMs ta" ..
    from d [OF m(2)] obtain tb where b: "payDate b = DateMs tb" ..
    from d [OF m(3)] obtain tc where c: "payDate c = DateMs tc" ..
    let ?wa = "valueOr0 (ytdTaxableWages a)"
    let ?wb = "valueOr0 (ytdTaxableWages b)"
    let ?wc = "valueOr0 (ytdTaxableWages c)"
    from r have r': "tc < ta \<or> (ta = tc \<and> ?wc < ?wa)"
      by (simp only: ranksBefore_dated [OF a c])
    have "(tb < ta \<or> (ta = tb \<and> ?wb < ?wa)) \<or> (tc < tb \<or> (tb = tc \<and> ?wc < ?wb))"
    proof (cases "tb < ta")
      case True
      then show ?thesis by simp
    next
      case False
      show ?thesis
      proof (cases "ta = tb")
        case True
        show ?thesis
        proof (cases "?wb < ?wa")
          case True
          with \<open>ta = tb\<close> show ?thesis by simp
        next
          case False
          with r' \<open>ta = tb\<close> show ?thesis by auto
        qed
      next
        case False
        with \<open>\<not> tb < ta\<close> have "ta < tb" by simp
        with r' show ?thesis by auto
      qed
    qed
    then show "ranksBefore a b \<or> ranksBefore b c"
      by (simp only: ranksBefore_dated [OF a b] ranksBefore_dated [OF b c])
  qed
next
  case False
  with assms have n: "payDate a = NoDate" if "a \<in> set g" for a
    using that by (auto simp: uniformDates_def list_all_iff)
  show ?thesis
  proof (rule consistentRankingI)
    fix a assume "a \<in> set g"
    with n [of a] show "payDate a \<noteq> InvalidDate" by simp
  next
    fix a b c assume m: "a \<in> set g" "b \<in> set g" "c \<in> set g" and r: "ranksBefore a c"
    from r have "valueOr0 (ytdTaxableWages c) < valueOr0 (ytdTaxableWages a)"
      by (simp only: ranksBefore_undated [OF n [OF m(1)] n [OF m(3)]])
    then have "valueOr0 (ytdTaxableWages b) < valueOr0 (ytdTaxableWages a)
        \<or> valueOr0 (ytdTaxableWages c) < valueOr0 (ytdTaxableWages b)" by linarith
    then show "ranksBefore a b \<or> ranksBefore b c"
      by (simp only: ranksBefore_undated [OF n [OF m(1)] n [OF m(2)]]
          ranksBefore_undated [OF n [OF m(2)] n [OF m(3)]])
  qed
qed

lemma pair_consistent:
  assumes "payDate a \<noteq> InvalidDate" "payDate b \<noteq> InvalidDate"
  shows "consistentRanking [a, b]"
proof (rule consistentRankingI)
  fix x assume "x \<in> set [a, b]"
  with assms show "payDate x \<noteq> InvalidDate" by auto
next
  fix x y z assume m: "x \<in> set [a, b]" "y \<in> set [a, b]" "z \<in> set [a, b]"
    and r: "ranksBefore x z"
  from r ranksBefore_asym [of x z] have "x \<noteq> z" by blast
  with m have "y = x \<or> y = z" by auto
  with r show "ranksBefore x y \<or> ranksBefore y z" by blast
qed

section \<open>Grouping by employer\<close>

lemma groupByEmployer_snoc:
  "groupByEmployer (es @ [e]) = pushEntry (employerKey e) e (groupByEmployer es)"
  by (simp add: groupByEmployer_def)

lemma pushEntry_new:
  "k \<notin> set ks \<Longrightarrow>
     pushEntry k e (map (\<lambda>k'. (k', G k')) ks) = map (\<lambda>k'. (k', G k')) ks @ [(k, [e])]"
  by (induction ks) auto

lemma pushEntry_known:
  "k \<in> set ks \<Longrightarrow> distinct ks \<Longrightarrow>
     pushEntry k e (map (\<lambda>k'. (k', G k')) ks)
       = map (\<lambda>k'. (k', if k' = k then G k' @ [e] else G k')) ks"
proof (induction ks)
  case Nil
  then show ?case by simp
next
  case (Cons a ks)
  show ?case
  proof (cases "a = k")
    case True
    with Cons.prems have "k \<notin> set ks" by simp
    then have "map (\<lambda>k'. (k', if k' = k then G k' @ [e] else G k')) ks = map (\<lambda>k'. (k', G k')) ks"
      by (induction ks) auto
    with True show ?thesis by simp
  next
    case False
    with Cons show ?thesis by simp
  qed
qed

lemma employerGroup_snoc:
  "employerGroup k (es @ [e])
     = (if employerKey e = k then employerGroup k es @ [e] else employerGroup k es)"
  by (simp add: employerGroup_def)

lemma employerGroup_empty: "k \<notin> employerKey ` set es \<Longrightarrow> employerGroup k es = []"
  by (auto simp: employerGroup_def filter_empty_conv)

lemma groupByEmployer_groups:
  "\<exists>ks. distinct ks \<and> set ks = employerKey ` set es
        \<and> groupByEmployer es = map (\<lambda>k. (k, employerGroup k es)) ks"
proof (induction es rule: rev_induct)
  case Nil
  show ?case by (simp add: groupByEmployer_def)
next
  case (snoc e es)
  then obtain ks where ks: "distinct ks" "set ks = employerKey ` set es"
    "groupByEmployer es = map (\<lambda>k. (k, employerGroup k es)) ks" by blast
  let ?k = "employerKey e"
  show ?case
  proof (cases "?k \<in> set ks")
    case True
    have "groupByEmployer (es @ [e])
        = map (\<lambda>k'. (k', if k' = ?k then employerGroup k' es @ [e] else employerGroup k' es)) ks"
      using pushEntry_known [OF True ks(1), of e "\<lambda>k. employerGroup k es"]
      by (simp only: groupByEmployer_snoc ks(3))
    also have "\<dots> = map (\<lambda>k. (k, employerGroup k (es @ [e]))) ks"
      by (rule map_cong) (auto simp: employerGroup_snoc)
    finally have "groupByEmployer (es @ [e]) = map (\<lambda>k. (k, employerGroup k (es @ [e]))) ks" .
    moreover from True ks(2) have "set ks = employerKey ` set (es @ [e])" by auto
    ultimately show ?thesis using ks(1) by blast
  next
    case False
    with ks(2) have empty: "employerGroup ?k es = []" by (simp add: employerGroup_empty)
    have "groupByEmployer (es @ [e]) = map (\<lambda>k. (k, employerGroup k es)) ks @ [(?k, [e])]"
      using pushEntry_new [OF False, of e "\<lambda>k. employerGroup k es"]
      by (simp only: groupByEmployer_snoc ks(3))
    also have "map (\<lambda>k. (k, employerGroup k es)) ks = map (\<lambda>k. (k, employerGroup k (es @ [e]))) ks"
      by (rule map_cong) (use False in \<open>auto simp: employerGroup_snoc\<close>)
    also have "[(?k, [e])] = map (\<lambda>k. (k, employerGroup k (es @ [e]))) [?k]"
      using empty by (simp add: employerGroup_snoc)
    finally have "groupByEmployer (es @ [e])
        = map (\<lambda>k. (k, employerGroup k (es @ [e]))) (ks @ [?k])" by simp
    moreover from False ks(1) have "distinct (ks @ [?k])" by simp
    moreover from ks(2) have "set (ks @ [?k]) = employerKey ` set (es @ [e])" by auto
    ultimately show ?thesis by blast
  qed
qed

lemma groupByEmployer_nonempty:
  assumes "(k, stubs) \<in> set (groupByEmployer es)"
  shows "stubs \<noteq> [] \<and> stubs = employerGroup k es"
proof -
  from groupByEmployer_groups [of es] obtain ks where ks: "set ks = employerKey ` set es"
    "groupByEmployer es = map (\<lambda>k. (k, employerGroup k es)) ks" by blast
  with assms have "k \<in> employerKey ` set es" "stubs = employerGroup k es" by auto
  then show ?thesis by (auto simp: employerGroup_def filter_empty_conv)
qed

lemma foldl_addEmployer:
  "foldl addEmployer (w, h) gs
     = (w + (\<Sum>g \<leftarrow> gs. stubWages (latestStub g)), h + (\<Sum>g \<leftarrow> gs. stubWithheld (latestStub g)))"
  by (induction gs arbitrary: w h) (simp_all add: addEmployer_def Let_def add.assoc)

lemma sum_over_groups:
  fixes f :: "PaystubEntry list \<Rightarrow> number"
  shows "(\<Sum>g \<leftarrow> map snd (groupByEmployer es). f g)
     = (\<Sum>k \<leftarrow> remdups (map employerKey es). f (employerGroup k es))"
proof -
  from groupByEmployer_groups [of es] obtain ks where ks: "distinct ks"
    "set ks = employerKey ` set es"
    "groupByEmployer es = map (\<lambda>k. (k, employerGroup k es)) ks" by blast
  have "(\<Sum>g \<leftarrow> map snd (groupByEmployer es). f g) = (\<Sum>k \<leftarrow> ks. f (employerGroup k es))"
    by (simp add: ks(3) comp_def)
  also have "\<dots> = sum (\<lambda>k. f (employerGroup k es)) (set ks)"
    using ks(1) by (rule sum_list_distinct_conv_sum_set)
  also have "set ks = set (remdups (map employerKey es))"
    using ks(2) by simp
  also have "sum (\<lambda>k. f (employerGroup k es)) (set (remdups (map employerKey es)))
      = (\<Sum>k \<leftarrow> remdups (map employerKey es). f (employerGroup k es))"
    by (rule sum_list_distinct_conv_sum_set [symmetric]) simp
  finally show ?thesis .
qed

lemma aggregatePaystubEntries_groups:
  "aggregatePaystubEntries (Some entries)
     = \<lparr>Totals.totalWages =
          roundToDollar (\<Sum>k \<leftarrow> remdups (map employerKey entries).
                           stubWages (latestStub (employerGroup k entries))),
        Totals.totalWithheld =
          roundToDollar (\<Sum>k \<leftarrow> remdups (map employerKey entries).
                           stubWithheld (latestStub (employerGroup k entries)))\<rparr>"
proof (cases entries)
  case Nil
  then show ?thesis by (simp add: aggregatePaystubEntries_def)
next
  case (Cons e es)
  then have "aggregatePaystubEntries (Some entries)
      = (case foldl addEmployer (0, 0) (map snd (groupByEmployer entries)) of
           (wages, withheld) \<Rightarrow>
             \<lparr>Totals.totalWages = roundToDollar wages, Totals.totalWithheld = roundToDollar withheld\<rparr>)"
    by (simp add: aggregatePaystubEntries_def)
  also have "\<dots> = \<lparr>Totals.totalWages =
          roundToDollar (\<Sum>g \<leftarrow> map snd (groupByEmployer entries). stubWages (latestStub g)),
        Totals.totalWithheld =
          roundToDollar (\<Sum>g \<leftarrow> map snd (groupByEmployer entries). stubWithheld (latestStub g))\<rparr>"
    by (simp add: foldl_addEmployer)
  finally show ?thesis by (simp only: sum_over_groups)
qed

lemma latestStub_pair:
  "latestStub [a, b] = (if comparePaystubs a b \<le> 0 then a else b)"
  by (simp add: latestStub_def arraySort_def)

lemma aggregate_pair_same_employer:
  assumes "employerKey a = employerKey b"
  shows "aggregatePaystubEntries (Some [a, b])
    = \<lparr>Totals.totalWages = roundToDollar (stubWages (latestStub [a, b])),
       Totals.totalWithheld = roundToDollar (stubWithheld (latestStub [a, b]))\<rparr>"
  using assms by (simp add: aggregatePaystubEntries_groups employerGroup_def)

lemma employerGroup_nonempty:
  "k \<in> set (map employerKey entries) \<Longrightarrow> employerGroup k entries \<noteq> []"
  by (auto simp: employerGroup_def filter_empty_conv)

section \<open>Scenario A: one W-2, single filer, 2025\<close>

text \<open>
  Claim C1. For tax year 2025, filing status single, one W-2 entry with wages 60000 and
  federal withholding 6000 and no paystub, \<open>calculateFromSession\<close> returns taxable income
  45000, tax liability 5168, net due/refund -832, a refund, and refund amount 832 (with
  the 10% band taxed on 11600 and the 12% band on 33400).
\<close>

theorem scenario_A_single_2025:
  "calculateFromSession now 2025 SINGLE
     (Some [\<lparr>box1Wages = Some 60000, box2Withheld = Some 6000\<rparr>]) (Some [])
   = Inr \<lparr>Results.totalWages = 60000, totalWithheld = 6000,
        standardDeduction = 15000, taxableIncome = 45000,
        taxLiability = 5168, netDueRefund = - 832, isRefund = True,
        refundAmount = 832, amountDue = 0,
        bracketBreakdown =
          [\<lparr>rate = 1 / 10, min_b = 0, max_b = Some 11600,
              incomeInBracket = 11600, taxFromBracket = 1160\<rparr>,
           \<lparr>rate = 3 / 25, min_b = 11600, max_b = Some 47150,
              incomeInBracket = 33400, taxFromBracket = 4008\<rparr>],
        calculatedAt = now\<rparr>"
  by (simp add: estimate_defs table_defs)

section \<open>Zero and negative taxable income\<close>

text \<open>
  Claim C10. For every taxable income that is zero or negative and every tax year and
  filing status, also a pair the bracket table does not have, \<open>calculateTaxLiability\<close>
  returns liability 0 and an empty breakdown and raises nothing: the table is not read
  on that path, whatever the table is.
\<close>

theorem calculateTaxLiability_nonpositive:
  assumes "income \<le> 0"
  shows "calculateTaxLiability income year status
           = Inr \<lparr>liability = 0, TaxLiability.bracketBreakdown = []\<rparr>
         \<and> calculateTaxLiabilityFrom tbl income year status
           = Inr \<lparr>liability = 0, TaxLiability.bracketBreakdown = []\<rparr>"
  using assms by (simp add: calculateTaxLiability_def calculateTaxLiabilityFrom_def)

theorem calculateTaxLiability_nonpositive_witness:
  "(-250 :: number) \<le> 0
   \<and> calculateTaxLiability (-250) 1999 ''head_of_household''
       = Inr \<lparr>liability = 0, TaxLiability.bracketBreakdown = []\<rparr>
   \<and> getTaxBrackets 1999 ''head_of_household'' = Inl (UnsupportedTaxYear 1999)"
proof -
  have h: "(-250 :: number) \<le> 0" by simp
  have "getTaxBrackets 1999 ''head_of_household'' = Inl (UnsupportedTaxYear 1999)"
    by (simp add: getTaxBrackets_def getTaxBracketsFrom_def TAX_BRACKETS_def)
  with h calculateTaxLiability_nonpositive [OF h, of 1999 "''head_of_household''"]
  show ?thesis by simp
qed

section \<open>Monotonicity of the liability\<close>

text \<open>
  Claim C9. For a fixed valid bracket schedule, found in the table for a tax year and a
  filing status, the liability is monotone in the taxable income: for incomes \<open>a \<le> c\<close>
  the calculation returns for both, and the liability for \<open>a\<close> is at most that for \<open>c\<close>.
\<close>

theorem liability_monotone:
  assumes "getTaxBracketsFrom tbl year status = Inr bs" and "validSchedule bs" and "a \<le> c"
  shows "\<exists>ra rc. calculateTaxLiabilityFrom tbl a year status = Inr ra
           \<and> calculateTaxLiabilityFrom tbl c year status = Inr rc
           \<and> liability ra \<le> liability rc"
proof (cases "0 < a")
  case True
  with assms have "0 < c" by simp
  from scheduleTax_mono [OF assms(2,3)]
  have "roundToDollar (\<Sum>b \<leftarrow> bs. rate b * bandIncome a b)
      \<le> roundToDollar (\<Sum>b \<leftarrow> bs. rate b * bandIncome c b)"
    by (rule roundToDollar_mono)
  with calculateTaxLiabilityFrom_valid [OF assms(1,2) True]
    calculateTaxLiabilityFrom_valid [OF assms(1,2) \<open>0 < c\<close>]
  show ?thesis by simp
next
  case False
  then have a: "calculateTaxLiabilityFrom tbl a year status
      = Inr \<lparr>liability = 0, TaxLiability.bracketBreakdown = []\<rparr>"
    by (simp add: calculateTaxLiabilityFrom_def)
  show ?thesis
  proof (cases "0 < c")
    case True
    from scheduleTax_nonneg [OF assms(2), of c]
    have "roundToDollar 0 \<le> roundToDollar (\<Sum>b \<leftarrow> bs. rate b * bandIncome c b)"
      by (rule roundToDollar_mono)
    with a calculateTaxLiabilityFrom_valid [OF assms(1,2) True] show ?thesis by simp
  next
    case False
    then have "calculateTaxLiabilityFrom tbl c year status
      = Inr \<lparr>liability = 0, TaxLiability.bracketBreakdown = []\<rparr>"
      by (simp add: calculateTaxLiabilityFrom_def)
    with a show ?thesis by simp
  qed
qed

theorem liability_monotone_witness:
  "getTaxBracketsFrom TAX_BRACKETS 2025 SINGLE = Inr (projr (getTaxBrackets 2025 SINGLE))
   \<and> validSchedule (projr (getTaxBrackets 2025 SINGLE))
   \<and> (45000 :: number) \<le> 45001
   \<and> (\<exists>ra rc. calculateTaxLiabilityFrom TAX_BRACKETS 45000 2025 SINGLE = Inr ra
           \<and> calculateTaxLiabilityFrom TAX_BRACKETS 45001 2025 SINGLE = Inr rc
           \<and> liability ra \<le> liability rc)"
proof -
  have g: "getTaxBracketsFrom TAX_BRACKETS 2025 SINGLE = Inr (projr (getTaxBrackets 2025 SINGLE))"
    by (simp add: getTaxBrackets_def getTaxBracketsFrom_def table_defs)
  have v: "validSchedule (projr (getTaxBrackets 2025 SINGLE))"
    by (simp add: getTaxBrackets_def getTaxBracketsFrom_def table_defs validSchedule_def)
  have le: "(45000 :: number) \<le> 45001" by simp
  from liability_monotone [OF g v le] g v le show ?thesis by simp
qed

section \<open>Sums over the bracket breakdown\<close>

text \<open>
  Claim C2, as amended. For every taxable income \<open>T \<ge> 0\<close> and every valid schedule found
  in the table, the calculation returns a result; the amounts of income taken in the
  bands, before rounding, sum to \<open>T\<close> exactly; the liability is the rounding of the sum of
  the taxes of the bands before rounding; and the breakdown reports, per band, these two
  amounts each rounded to a whole unit. The reported \<open>incomeInBracket\<close> therefore sum to
  \<open>T\<close> when \<open>T\<close> and the band bounds are whole amounts. (The reported \<open>taxFromBracket\<close> need
  not sum to the unrounded liability, as the counterexample shows.)
\<close>

theorem bracket_sums:
  assumes "getTaxBracketsFrom tbl year status = Inr bs" and "validSchedule bs" and "0 \<le> T"
  shows "\<exists>r. calculateTaxLiabilityFrom tbl T year status = Inr r
     \<and> sum_list (map snd (pushed T bs T)) = T
     \<and> TaxLiability.bracketBreakdown r
         = map (\<lambda>(b, inc). bracketResult b inc (inc * rate b)) (pushed T bs T)
     \<and> liability r = roundToDollar (\<Sum>(b, inc) \<leftarrow> pushed T bs T. inc * rate b)
     \<and> (T \<in> \<int> \<and> wholeBounds bs
          \<longrightarrow> sum_list (map incomeInBracket (TaxLiability.bracketBreakdown r)) = T)"
proof (cases "0 < T")
  case True
  let ?ps = "pushed T bs T"
  have r: "calculateTaxLiabilityFrom tbl T year status
      = Inr \<lparr>liability = roundToDollar (\<Sum>(b, inc) \<leftarrow> ?ps. inc * rate b),
             TaxLiability.bracketBreakdown = map (\<lambda>(b, inc). bracketResult b inc (inc * rate b)) ?ps\<rparr>"
    using assms(1) True by (simp add: calculateTaxLiabilityFrom_def taxLoop_pushed)
  have s: "sum_list (map snd ?ps) = T"
    using assms(2) True by (rule pushed_income_sum)
  have w: "sum_list (map incomeInBracket (map (\<lambda>(b, inc). bracketResult b inc (inc * rate b)) ?ps)) = T"
    if "T \<in> \<int>" "wholeBounds bs"
  proof -
    have ps: "?ps = map (\<lambda>b. (b, bandIncome T b)) (filter (\<lambda>b. 0 < bandIncome T b) bs)"
      using assms(2) True pushed_valid [of 0 bs T] by (simp add: validSchedule_def)
    have "map incomeInBracket (map (\<lambda>(b, inc). bracketResult b inc (inc * rate b)) ?ps) = map snd ?ps"
      unfolding ps using that
      by (auto simp: bracketResult_def roundToDollar_Ints bandIncome_Ints)
    then show ?thesis by (simp only: s)
  qed
  from r s w show ?thesis by simp
next
  case False
  with assms(3) have "T = 0" by simp
  then show ?thesis
    by (simp add: calculateTaxLiabilityFrom_def pushed_done)
qed

text \<open>
  The claim as first stated fails: at taxable income 11605 (single, 2025) the reported
  taxes of the bands are 1160 and 1, which sum to 1161, while the liability before
  rounding is 1160.60; at taxable income 0.50 the one reported \<open>incomeInBracket\<close> is 1.
\<close>

theorem bracket_sums_counterexample:
  "calculateTaxLiability 11605 2025 SINGLE
     = Inr \<lparr>liability = 1161,
            TaxLiability.bracketBreakdown =
              [\<lparr>rate = 1 / 10, min_b = 0, max_b = Some 11600,
                  incomeInBracket = 11600, taxFromBracket = 1160\<rparr>,
               \<lparr>rate = 3 / 25, min_b = 11600, max_b = Some 47150,
                  incomeInBracket = 5, taxFromBracket = 1\<rparr>]\<rparr>
   \<and> fst (taxLoop 11605 (projr (getTaxBrackets 2025 SINGLE)) 0 11605 []) = 5803 / 5
   \<and> (1160 + 1 :: number) \<noteq> 5803 / 5
   \<and> calculateTaxLiability (1 / 2) 2025 SINGLE
     = Inr \<lparr>liability = 0,
            TaxLiability.bracketBreakdown =
              [\<lparr>rate = 1 / 10, min_b = 0, max_b = Some 11600,
                  incomeInBracket = 1, taxFromBracket = 0\<rparr>]\<rparr>
   \<and> (1 :: number) \<noteq> 1 / 2"
  by (simp add: calculateTaxLiability_def calculateTaxLiabilityFrom_def getTaxBrackets_def
      getTaxBracketsFrom_def table_defs incomeInBracketOf_def bracketResult_def
      roundToDollar_def)

theorem bracket_sums_witness:
  "getTaxBracketsFrom TAX_BRACKETS 2025 SINGLE = Inr (projr (getTaxBrackets 2025 SINGLE))
   \<and> validSchedule (projr (getTaxBrackets 2025 SINGLE))
   \<and> (0 :: number) \<le> 45000
   \<and> (45000 :: number) \<in> \<int>
   \<and> wholeBounds (projr (getTaxBrackets 2025 SINGLE))
   \<and> (\<exists>r. calculateTaxLiabilityFrom TAX_BRACKETS 45000 2025 SINGLE = Inr r
         \<and> sum_list (map snd (pushed 45000 (projr (getTaxBrackets 2025 SINGLE)) 45000)) = 45000
         \<and> sum_list (map incomeInBracket (TaxLiability.bracketBreakdown r)) = 45000)"
proof -
  have g: "getTaxBracketsFrom TAX_BRACKETS 2025 SINGLE = Inr (projr (getTaxBrackets 2025 SINGLE))"
    by (simp add: getTaxBrackets_def getTaxBracketsFrom_def table_defs)
  have v: "validSchedule (projr (getTaxBrackets 2025 SINGLE))"
    by (simp add: getTaxBrackets_def getTaxBracketsFrom_def table_defs validSchedule_def)
  have le: "(0 :: number) \<le> 45000" by simp
  have i: "(45000 :: number) \<in> \<int>" by simp
  have w: "wholeBounds (projr (getTaxBrackets 2025 SINGLE))"
    by (simp add: getTaxBrackets_def getTaxBracketsFrom_def table_defs wholeBounds_def)
  from bracket_sums [OF g v le] g v le i w show ?thesis by auto
qed

section \<open>Unsupported tax year or filing status\<close>

lemma tableEntry_deductions:
  "(tableEntry STANDARD_DEDUCTIONS year status = None)
    = (\<not> ((year = 2025 \<or> year = 2026) \<and> (status = SINGLE \<or> status = MARRIED_FILING_JOINTLY)))"
  by (simp add: tableEntry_def STANDARD_DEDUCTIONS_def)

lemma tableEntry_brackets:
  "(tableEntry TAX_BRACKETS year status = None)
    = (\<not> ((year = 2025 \<or> year = 2026) \<and> (status = SINGLE \<or> status = MARRIED_FILING_JOINTLY)))"
  by (simp add: tableEntry_def TAX_BRACKETS_def)

lemma getStandardDeduction_unsupported:
  assumes "tableEntry STANDARD_DEDUCTIONS year status = None"
  shows "getStandardDeduction year status = Inl (UnsupportedTaxYear year)
       \<or> getStandardDeduction year status = Inl (UnsupportedFilingStatus status year)"
  using assms
  by (auto simp: getStandardDeduction_def getStandardDeductionFrom_def tableEntry_def
      split: option.splits)

text \<open>
  On claim C7. \<open>calculateFromSession\<close> aggregates the entries and then calls
  \<open>getStandardDeduction\<close>, whose error it propagates unchanged. The code does not meet the
  claim for every pair without an entry: for a filing status among \<open>objectPrototypeKeys\<close>
  and a tax year of the table, \<open>toString\<close> and 2025 say, both lookups of the code find the
  inherited function, nothing is raised and a result is returned (with one W-2 of wages
  60000 and withholding 6000: tax liability 0 and a refund of 6000). That input is outside
  the definitions above. For every other pair without an entry, that is when the tax year
  has no entry or the filing status is not one of \<open>objectPrototypeKeys\<close>, and for entries
  of which no normalized employer label is one of these names, the estimate fails with the
  error that \<open>getStandardDeduction\<close> raises for the pair.
\<close>

lemma unsupported_own_pair_fails:
  assumes "tableEntry STANDARD_DEDUCTIONS year status = None
         \<or> tableEntry TAX_BRACKETS year status = None"
    and "map_of STANDARD_DEDUCTIONS year = None \<or> status \<notin> set objectPrototypeKeys"
    and "\<forall>entry \<in> (case paystubEntries of None \<Rightarrow> {} | Some entries \<Rightarrow> set entries).
            employerKey entry \<notin> set objectPrototypeKeys"
  shows "\<exists>e. calculateFromSession now year status w2Entries paystubEntries = Inl e
           \<and> getStandardDeduction year status = Inl e
           \<and> (e = UnsupportedTaxYear year \<or> e = UnsupportedFilingStatus status year)"
proof -
  from assms(1) have "tableEntry STANDARD_DEDUCTIONS year status = None"
    by (simp add: tableEntry_deductions tableEntry_brackets)
  from getStandardDeduction_unsupported [OF this] show ?thesis
    by (auto simp: calculateFromSession_def calculateFromSessionFrom_def
        getStandardDeduction_def Let_def)
qed

lemma unsupported_own_pair_fails_example:
  "calculateFromSession 0 2024 SINGLE
        (Some [\<lparr>box1Wages = Some 60000, box2Withheld = Some 6000\<rparr>]) None
      = Inl (UnsupportedTaxYear 2024)
   \<and> calculateFromSession 0 2025 ''head_of_household''
        (Some [\<lparr>box1Wages = Some 60000, box2Withheld = Some 6000\<rparr>]) None
      = Inl (UnsupportedFilingStatus ''head_of_household'' 2025)"
proof -
  have h: "tableEntry STANDARD_DEDUCTIONS 2024 SINGLE = None
      \<or> tableEntry TAX_BRACKETS 2024 SINGLE = None"
    by (simp add: tableEntry_deductions)
  have h': "map_of STANDARD_DEDUCTIONS 2024 = None \<or> SINGLE \<notin> set objectPrototypeKeys"
    by (simp add: STANDARD_DEDUCTIONS_def)
  have k: "tableEntry STANDARD_DEDUCTIONS 2025 ''head_of_household'' = None
      \<or> tableEntry TAX_BRACKETS 2025 ''head_of_household'' = None"
    by (simp add: tableEntry_deductions SINGLE_def MARRIED_FILING_JOINTLY_def)
  have k': "map_of STANDARD_DEDUCTIONS 2025 = None
      \<or> ''head_of_household'' \<notin> set objectPrototypeKeys"
    by (simp add: objectPrototypeKeys_def)
  have l: "\<forall>entry \<in> (case (None :: PaystubEntry list option) of None \<Rightarrow> {}
                        | Some entries \<Rightarrow> set entries).
            employerKey entry \<notin> set objectPrototypeKeys"
    by simp
  have d: "getStandardDeduction 2024 SINGLE = Inl (UnsupportedTaxYear 2024)"
    "getStandardDeduction 2025 ''head_of_household''
      = Inl (UnsupportedFilingStatus ''head_of_household'' 2025)"
    by (simp_all add: getStandardDeduction_def getStandardDeductionFrom_def table_defs)
  from unsupported_own_pair_fails [OF h h' l, of 0 "Some [\<lparr>box1Wages = Some 60000, box2Withheld = Some 6000\<rparr>]"]
    unsupported_own_pair_fails [OF k k' l, of 0 "Some [\<lparr>box1Wages = Some 60000, box2Withheld = Some 6000\<rparr>]"]
    d
  show ?thesis by auto
qed

section \<open>Empty and malformed schedules\<close>




section \<open>Rounding of the reported amounts\<close>

text \<open>
  Claim C5, as amended. Every reported amount is rounded by \<open>roundToDollar\<close>, that is to
  the nearest whole unit with a tie going up, towards plus infinity. This is rounding half
  away from zero exactly for the amounts that are not negative ties: it differs for a
  negative amount that lies halfway between two whole units. The liability is the rounding
  of the sum of the unrounded taxes of the bands, and each band reports its own income and
  tax rounded; the estimate reports the rounded totals, deduction and taxable income, the
  liability, and the net amount, refund and amount due computed from the rounded
  liability and the withholding as given, then rounded.
\<close>

theorem reported_amounts_rounded:
  "roundToDollar x \<in> \<int> \<and> x - 1 / 2 < roundToDollar x \<and> roundToDollar x \<le> x + 1 / 2
   \<and> (roundToDollar x = roundHalfAwayFromZero x) = (0 \<le> x \<or> x + 1 / 2 \<notin> \<int>)
   \<and> (0 < income \<and> tableEntry tbl year status = Some bs \<longrightarrow>
        calculateTaxLiabilityFrom tbl income year status
          = Inr \<lparr>liability =
                   roundToDollar (\<Sum>(b, inc) \<leftarrow> pushed income bs income. inc * rate b),
                 TaxLiability.bracketBreakdown =
                   map (\<lambda>(b, inc).
                          \<lparr>rate = rate b, min_b = min_b b, max_b = max_b b,
                           incomeInBracket = roundToDollar inc,
                           taxFromBracket = roundToDollar (inc * rate b)\<rparr>)
                     (pushed income bs income)\<rparr>)
   \<and> (calculateTaxEstimateFrom tbl now inputs = Inr r \<longrightarrow>
        (\<exists>l. calculateTaxLiabilityFrom tbl
                (max 0 (TaxCalculationInputs.totalWages inputs
                         - TaxCalculationInputs.standardDeduction inputs))
                (taxYear inputs) (filingStatus inputs) = Inr l
           \<and> Results.totalWages r = roundToDollar (TaxCalculationInputs.totalWages inputs)
           \<and> Results.totalWithheld r = roundToDollar (TaxCalculationInputs.totalWithheld inputs)
           \<and> Results.standardDeduction r
               = roundToDollar (TaxCalculationInputs.standardDeduction inputs)
           \<and> Results.taxableIncome r
               = roundToDollar (max 0 (TaxCalculationInputs.totalWages inputs
                                        - TaxCalculationInputs.standardDeduction inputs))
           \<and> Results.taxLiability r = liability l
           \<and> Results.netDueRefund r
               = roundToDollar (liability l - TaxCalculationInputs.totalWithheld inputs)
           \<and> Results.refundAmount r
               = roundToDollar (max 0 (TaxCalculationInputs.totalWithheld inputs - liability l))
           \<and> Results.amountDue r
               = roundToDollar (max 0 (liability l - TaxCalculationInputs.totalWithheld inputs))
           \<and> Results.bracketBreakdown r = TaxLiability.bracketBreakdown l))"
proof -
  have a: "roundToDollar x \<in> \<int> \<and> x - 1 / 2 < roundToDollar x \<and> roundToDollar x \<le> x + 1 / 2"
    by (simp add: roundToDollar_nearest)
  have b: "(roundToDollar x = roundHalfAwayFromZero x) = (0 \<le> x \<or> x + 1 / 2 \<notin> \<int>)"
    by (rule roundToDollar_away_iff)
  have c: "calculateTaxLiabilityFrom tbl income year status
          = Inr \<lparr>liability =
                   roundToDollar (\<Sum>(b, inc) \<leftarrow> pushed income bs income. inc * rate b),
                 TaxLiability.bracketBreakdown =
                   map (\<lambda>(b, inc).
                          \<lparr>rate = rate b, min_b = min_b b, max_b = max_b b,
                           incomeInBracket = roundToDollar inc,
                           taxFromBracket = roundToDollar (inc * rate b)\<rparr>)
                     (pushed income bs income)\<rparr>"
    if "0 < income" "tableEntry tbl year status = Some bs"
    using calculateTaxLiabilityFrom_pushed [OF that] by (simp add: bracketResult_def)
  have d: "\<exists>l. calculateTaxLiabilityFrom tbl
                (max 0 (TaxCalculationInputs.totalWages inputs
                         - TaxCalculationInputs.standardDeduction inputs))
                (taxYear inputs) (filingStatus inputs) = Inr l
           \<and> Results.totalWages r = roundToDollar (TaxCalculationInputs.totalWages inputs)
           \<and> Results.totalWithheld r = roundToDollar (TaxCalculationInputs.totalWithheld inputs)
           \<and> Results.standardDeduction r
               = roundToDollar (TaxCalculationInputs.standardDeduction inputs)
           \<and> Results.taxableIncome r
               = roundToDollar (max 0 (TaxCalculationInputs.totalWages inputs
                                        - TaxCalculationInputs.standardDeduction inputs))
           \<and> Results.taxLiability r = liability l
           \<and> Results.netDueRefund r
               = roundToDollar (liability l - TaxCalculationInputs.totalWithheld inputs)
           \<and> Results.refundAmount r
               = roundToDollar (max 0 (TaxCalculationInputs.totalWithheld inputs - liability l))
           \<and> Results.amountDue r
               = roundToDollar (max 0 (liability l - TaxCalculationInputs.totalWithheld inputs))
           \<and> Results.bracketBreakdown r = TaxLiability.bracketBreakdown l"
    if e: "calculateTaxEstimateFrom tbl now inputs = Inr r"
  proof -
    let ?T = "max 0 (TaxCalculationInputs.totalWages inputs
                         - TaxCalculationInputs.standardDeduction inputs)"
    from e obtain l where l: "calculateTaxLiabilityFrom tbl ?T (taxYear inputs) (filingStatus inputs) = Inr l"
      by (auto simp: calculateTaxEstimateFrom_def Let_def split: sum.splits)
    have w: "liability l \<in> \<int>"
      using l by (auto simp: calculateTaxLiabilityFrom_def roundToDollar_nearest
          split: if_splits sum.splits prod.splits)
    from e l w show ?thesis
      by (auto simp: calculateTaxEstimateFrom_def Let_def roundToDollar_Ints max_def abs_if)
  qed
  from a b c d show ?thesis by blast
qed

theorem reported_amounts_rounded_witness:
  "((0 :: number) \<le> 3 / 5 \<or> (3 / 5 :: number) + 1 / 2 \<notin> \<int>)
   \<and> roundToDollar (3 / 5) = roundHalfAwayFromZero (3 / 5)
   \<and> (0 :: number) < 11605 \<and> tableEntry TAX_BRACKETS 2025 SINGLE = Some (projr (getTaxBrackets 2025 SINGLE))
   \<and> calculateTaxLiabilityFrom TAX_BRACKETS 11605 2025 SINGLE
       = Inr \<lparr>liability = roundToDollar (5803 / 5),
              TaxLiability.bracketBreakdown =
                [\<lparr>rate = 1 / 10, min_b = 0, max_b = Some 11600,
                    incomeInBracket = roundToDollar 11600, taxFromBracket = roundToDollar 1160\<rparr>,
                 \<lparr>rate = 3 / 25, min_b = 11600, max_b = Some 47150,
                    incomeInBracket = roundToDollar 5, taxFromBracket = roundToDollar (3 / 5)\<rparr>]\<rparr>
   \<and> calculateTaxEstimateFrom TAX_BRACKETS 0
        \<lparr>TaxCalculationInputs.totalWages = 60000, totalWithheld = 6000,
         standardDeduction = 15000, filingStatus = SINGLE, taxYear = 2025\<rparr>
       = Inr \<lparr>Results.totalWages = 60000, totalWithheld = 6000,
          standardDeduction = 15000, taxableIncome = 45000,
          taxLiability = 5168, netDueRefund = - 832, isRefund = True,
          refundAmount = 832, amountDue = 0,
          bracketBreakdown =
            [\<lparr>rate = 1 / 10, min_b = 0, max_b = Some 11600,
                incomeInBracket = 11600, taxFromBracket = 1160\<rparr>,
             \<lparr>rate = 3 / 25, min_b = 11600, max_b = Some 47150,
                incomeInBracket = 33400, taxFromBracket = 4008\<rparr>],
          calculatedAt = 0\<rparr>
   \<and> roundToDollar (5168 - 6000) = - 832"
proof -
  have p: "(0 :: number) < 11605" by simp
  have t: "tableEntry TAX_BRACKETS 2025 SINGLE = Some (projr (getTaxBrackets 2025 SINGLE))"
    by (simp add: tableEntry_def getTaxBrackets_def getTaxBracketsFrom_def table_defs)
  have ps: "pushed 11605 (projr (getTaxBrackets 2025 SINGLE)) 11605
      = [(bracket (10 / 100) 0 (Some 11600), 11600), (bracket (12 / 100) 11600 (Some 47150), 5)]"
    by (simp add: getTaxBrackets_def getTaxBracketsFrom_def table_defs incomeInBracketOf_def)
  have e: "calculateTaxEstimateFrom TAX_BRACKETS 0
        \<lparr>TaxCalculationInputs.totalWages = 60000, totalWithheld = 6000,
         standardDeduction = 15000, filingStatus = SINGLE, taxYear = 2025\<rparr>
       = Inr \<lparr>Results.totalWages = 60000, totalWithheld = 6000,
          standardDeduction = 15000, taxableIncome = 45000,
          taxLiability = 5168, netDueRefund = - 832, isRefund = True,
          refundAmount = 832, amountDue = 0,
          bracketBreakdown =
            [\<lparr>rate = 1 / 10, min_b = 0, max_b = Some 11600,
                incomeInBracket = 11600, taxFromBracket = 1160\<rparr>,
             \<lparr>rate = 3 / 25, min_b = 11600, max_b = Some 47150,
                incomeInBracket = 33400, taxFromBracket = 4008\<rparr>],
          calculatedAt = 0\<rparr>"
    by (simp add: estimate_defs table_defs)
  note th = reported_amounts_rounded [of "3 / 5" 11605 TAX_BRACKETS 2025 SINGLE
      "projr (getTaxBrackets 2025 SINGLE)" 0
      "\<lparr>TaxCalculationInputs.totalWages = 60000, totalWithheld = 6000,
         standardDeduction = 15000, filingStatus = SINGLE, taxYear = 2025\<rparr>"]
  from th have "roundToDollar (3 / 5) = roundHalfAwayFromZero (3 / 5)" by simp
  moreover from th p t have "calculateTaxLiabilityFrom TAX_BRACKETS 11605 2025 SINGLE
       = Inr \<lparr>liability = roundToDollar (5803 / 5),
              TaxLiability.bracketBreakdown =
                [\<lparr>rate = 1 / 10, min_b = 0, max_b = Some 11600,
                    incomeInBracket = roundToDollar 11600, taxFromBracket = roundToDollar 1160\<rparr>,
                 \<lparr>rate = 3 / 25, min_b = 11600, max_b = Some 47150,
                    incomeInBracket = roundToDollar 5, taxFromBracket = roundToDollar (3 / 5)\<rparr>]\<rparr>"
    by (simp add: ps bracket_def)
  ultimately show ?thesis using p t e by simp
qed

text \<open>
  The claim as first stated fails: with withholding 2.50 and no liability the net amount
  \<open>-2.50\<close> is reported as \<open>-2\<close> (and the refund as 3), where rounding half away from
  zero gives \<open>-3\<close>.
\<close>

theorem half_up_counterexample:
  "calculateTaxEstimate 0
      \<lparr>TaxCalculationInputs.totalWages = 0, totalWithheld = 5 / 2,
       standardDeduction = 15000, filingStatus = SINGLE, taxYear = 2025\<rparr>
     = Inr \<lparr>Results.totalWages = 0, totalWithheld = 3,
          standardDeduction = 15000, taxableIncome = 0,
          taxLiability = 0, netDueRefund = - 2, isRefund = True,
          refundAmount = 3, amountDue = 0, bracketBreakdown = [], calculatedAt = 0\<rparr>
   \<and> roundHalfAwayFromZero (0 - 5 / 2) = - 3"
  by (simp add: calculateTaxEstimate_def calculateTaxEstimateFrom_def
      calculateTaxLiabilityFrom_def roundToDollar_def roundHalfAwayFromZero_def)

section \<open>A year-to-date value of zero\<close>

text \<open>
  Claim C6 says that a year-to-date value that is present is used even when it is 0. The
  code does not do so: for one paystub with year-to-date wages 0 and withholding 0 and
  current-period wages 500 and withholding 50, the aggregate is 500 and 50, the
  current-period values, since \<open>||\<close> takes 0 for a missing value.
\<close>

theorem zero_ytd_falls_back_to_current:
  "aggregatePaystubEntries (Some
      [\<lparr>label = Some ''Acme'', payDate = NoDate, ytdTaxableWages = Some 0,
        ytdFedWithheld = Some 0, currentTaxableWages = Some 500,
        currentFedWithheld = Some 50\<rparr>])
    = \<lparr>Totals.totalWages = 500, Totals.totalWithheld = 50\<rparr>"
  by (simp add: aggregatePaystubEntries_def groupByEmployer_def addEmployer_def latestStub_def
      arraySort_def stubWages_def stubWithheld_def numOr_def)

section \<open>Year-end projection\<close>

text \<open>
  Claim C8, as amended. For every paystub entry and every number of remaining periods,
  \<open>projectYearEnd\<close> returns, without failing, the projected wages
  \<open>ytd + current \<times> remaining\<close> rounded to the nearest whole unit, and likewise the
  projected withholding, a missing value being read as 0; the result is the unrounded
  formula whenever that is a whole amount. In particular year-to-date wages 20000,
  current wages 2000 and 10 remaining periods give 40000.
\<close>

theorem projectYearEnd_rounded:
  "projectedWages (projectYearEnd p n)
     = roundToDollar (valueOr0 (ytdTaxableWages p) + valueOr0 (currentTaxableWages p) * n)
   \<and> projectedWithheld (projectYearEnd p n)
     = roundToDollar (valueOr0 (ytdFedWithheld p) + valueOr0 (currentFedWithheld p) * n)
   \<and> (valueOr0 (ytdTaxableWages p) + valueOr0 (currentTaxableWages p) * n \<in> \<int>
        \<longrightarrow> projectedWages (projectYearEnd p n)
             = valueOr0 (ytdTaxableWages p) + valueOr0 (currentTaxableWages p) * n)
   \<and> (valueOr0 (ytdFedWithheld p) + valueOr0 (currentFedWithheld p) * n \<in> \<int>
        \<longrightarrow> projectedWithheld (projectYearEnd p n)
             = valueOr0 (ytdFedWithheld p) + valueOr0 (currentFedWithheld p) * n)
   \<and> (ytdTaxableWages p = Some 20000 \<and> currentTaxableWages p = Some 2000
        \<longrightarrow> projectedWages (projectYearEnd p 10) = 40000)"
  by (simp add: projectYearEnd_def numOr_0 roundToDollar_Ints valueOr0_def)

theorem projectYearEnd_rounded_witness:
  "valueOr0 (Some 20000) + valueOr0 (Some 2000) * 10 \<in> \<int>
   \<and> valueOr0 (Some 2400) + valueOr0 None * 10 \<in> \<int>
   \<and> projectYearEnd
        \<lparr>label = Some ''Acme'', payDate = NoDate, ytdTaxableWages = Some 20000,
         ytdFedWithheld = Some 2400, currentTaxableWages = Some 2000,
         currentFedWithheld = None\<rparr> 10
       = \<lparr>projectedWages = 40000, projectedWithheld = 2400\<rparr>"
  using projectYearEnd_rounded [of
        "\<lparr>label = Some ''Acme'', payDate = NoDate, ytdTaxableWages = Some 20000,
         ytdFedWithheld = Some 2400, currentTaxableWages = Some 2000,
         currentFedWithheld = None\<rparr>" 10]
  by (simp add: valueOr0_def)

text \<open>
  The claim as first stated fails: with year-to-date wages 20000.25, current wages 2000 and
  10 remaining periods the projection is 40000, not 40000.25.
\<close>

theorem projectYearEnd_counterexample:
  "projectedWages (projectYearEnd
        \<lparr>label = Some ''Acme'', payDate = NoDate, ytdTaxableWages = Some (80001 / 4),
         ytdFedWithheld = Some 2400, currentTaxableWages = Some 2000,
         currentFedWithheld = Some 240\<rparr> 10) = 40000
   \<and> (40000 :: number) \<noteq> 80001 / 4 + 2000 * 10"
  by (simp add: projectYearEnd_def numOr_def roundToDollar_def)

section \<open>One paystub per employer\<close>

text \<open>
  Claim C4, as amended. Let no normalized employer label of the entries be the name of a
  property inherited from \<open>Object.prototype\<close>. Then the aggregation selects one entry of
  each group of entries that share a normalized label, and the totals are the rounded sums,
  over the distinct labels, of the wages and withholding of the selected entries; no other
  entry contributes. In every group that is ranked consistently by pay date descending
  where both dates are present, and by year-to-date wages descending otherwise, the
  selected entry is the one that the stable sort puts first, and no entry of the group
  ranks before it. A group is ranked consistently when every entry has a parseable pay
  date or no entry has a pay date, and when it has two entries of which neither has an
  unparseable pay date. In particular two entries of one employer with the same non-zero
  year-to-date wages contribute that figure once, and of two entries of one employer dated
  Jan 15 (year-to-date wages 5000) and Feb 15 (year-to-date wages 10000), in either order
  of entry, the later one is selected and contributes 10000.
\<close>

theorem one_stub_per_employer:
  "((\<forall>e \<in> set entries. employerKey e \<notin> set objectPrototypeKeys) \<longrightarrow>
      (\<exists>sel.
          (\<forall>k \<in> set (map employerKey entries).
              sel k \<in> set (employerGroup k entries)
              \<and> (consistentRanking (employerGroup k entries) \<longrightarrow>
                    sel k = latestStub (employerGroup k entries)
                    \<and> (\<forall>e' \<in> set (employerGroup k entries). \<not> ranksBefore e' (sel k))))
          \<and> aggregatePaystubEntries (Some entries)
              = \<lparr>Totals.totalWages =
                   roundToDollar (\<Sum>k \<leftarrow> remdups (map employerKey entries). stubWages (sel k)),
                 Totals.totalWithheld =
                   roundToDollar (\<Sum>k \<leftarrow> remdups (map employerKey entries).
                                    stubWithheld (sel k))\<rparr>))
   \<and> (uniformDates g \<longrightarrow> consistentRanking g)
   \<and> (payDate p \<noteq> InvalidDate \<and> payDate q \<noteq> InvalidDate \<longrightarrow> consistentRanking [p, q])
   \<and> (employerKey c = employerKey d \<and> employerKey c \<notin> set objectPrototypeKeys
        \<and> ytdTaxableWages c = Some w \<and> ytdTaxableWages d = Some w \<and> w \<noteq> 0 \<longrightarrow>
        Totals.totalWages (aggregatePaystubEntries (Some [c, d])) = roundToDollar w)
   \<and> (employerKey a = employerKey b \<and> employerKey a \<notin> set objectPrototypeKeys
        \<and> payDate a = DateMs ta \<and> payDate b = DateMs tb
        \<and> ta < tb \<and> ytdTaxableWages a = Some 5000 \<and> ytdTaxableWages b = Some 10000 \<longrightarrow>
        Totals.totalWages (aggregatePaystubEntries (Some [a, b])) = 10000
        \<and> Totals.totalWages (aggregatePaystubEntries (Some [b, a])) = 10000)"
proof -
  let ?sel = "\<lambda>k. latestStub (employerGroup k entries)"
  have member: "?sel k \<in> set (employerGroup k entries)"
    if "k \<in> set (map employerKey entries)" for k
    using that by (intro latestStub_in employerGroup_nonempty)
  have first: "\<forall>e' \<in> set (employerGroup k entries). \<not> ranksBefore e' (?sel k)"
    if "consistentRanking (employerGroup k entries)" for k
  proof
    fix e' assume "e' \<in> set (employerGroup k entries)"
    with that show "\<not> ranksBefore e' (?sel k)" by (rule latestStub_ranked_first)
  qed
  have "(\<forall>k \<in> set (map employerKey entries).
              ?sel k \<in> set (employerGroup k entries)
              \<and> (consistentRanking (employerGroup k entries) \<longrightarrow>
                    ?sel k = latestStub (employerGroup k entries)
                    \<and> (\<forall>e' \<in> set (employerGroup k entries). \<not> ranksBefore e' (?sel k))))
          \<and> aggregatePaystubEntries (Some entries)
              = \<lparr>Totals.totalWages =
                   roundToDollar (\<Sum>k \<leftarrow> remdups (map employerKey entries). stubWages (?sel k)),
                 Totals.totalWithheld =
                   roundToDollar (\<Sum>k \<leftarrow> remdups (map employerKey entries).
                                    stubWithheld (?sel k))\<rparr>"
    using member first by (simp only: aggregatePaystubEntries_groups) blast
  then have groups: "\<exists>sel.
          (\<forall>k \<in> set (map employerKey entries).
              sel k \<in> set (employerGroup k entries)
              \<and> (consistentRanking (employerGroup k entries) \<longrightarrow>
                    sel k = latestStub (employerGroup k entries)
                    \<and> (\<forall>e' \<in> set (employerGroup k entries). \<not> ranksBefore e' (sel k))))
          \<and> aggregatePaystubEntries (Some entries)
              = \<lparr>Totals.totalWages =
                   roundToDollar (\<Sum>k \<leftarrow> remdups (map employerKey entries). stubWages (sel k)),
                 Totals.totalWithheld =
                   roundToDollar (\<Sum>k \<leftarrow> remdups (map employerKey entries).
                                    stubWithheld (sel k))\<rparr>"
    by (rule exI [where x = ?sel])
  have uniform: "consistentRanking g" if "uniformDates g"
    using that by (rule uniformDates_consistent)
  have pair: "consistentRanking [p, q]"
    if "payDate p \<noteq> InvalidDate" "payDate q \<noteq> InvalidDate"
    using that by (rule pair_consistent)
  have same: "Totals.totalWages (aggregatePaystubEntries (Some [c, d])) = roundToDollar w"
    if "employerKey c = employerKey d" "ytdTaxableWages c = Some w"
      "ytdTaxableWages d = Some w" "w \<noteq> 0"
    using that by (simp add: aggregate_pair_same_employer latestStub_pair stubWages_def numOr_def)
  have later: "Totals.totalWages (aggregatePaystubEntries (Some [a, b])) = 10000
        \<and> Totals.totalWages (aggregatePaystubEntries (Some [b, a])) = 10000"
    if k: "employerKey a = employerKey b" and d: "payDate a = DateMs ta" "payDate b = DateMs tb"
      and lt: "ta < tb" and y: "ytdTaxableWages a = Some 5000" "ytdTaxableWages b = Some 10000"
  proof -
    from lt have "\<not> comparePaystubs a b \<le> 0" "comparePaystubs b a \<le> 0"
      by (simp_all add: comparePaystubs_dated [OF d] comparePaystubs_dated [OF d(2,1)])
    then have "latestStub [a, b] = b" "latestStub [b, a] = b"
      by (simp_all add: latestStub_pair)
    with k y show ?thesis
      by (simp add: aggregate_pair_same_employer stubWages_def numOr_def)
  qed
  from groups uniform pair same later show ?thesis by blast
qed

theorem one_stub_per_employer_witness:
  "employerKey \<lparr>label = Some ''Acme'', payDate = DateMs 1736899200000, ytdTaxableWages = Some 5000,
        ytdFedWithheld = Some 500, currentTaxableWages = None, currentFedWithheld = None\<rparr>
     \<notin> set objectPrototypeKeys
   \<and> employerKey \<lparr>label = Some '' acme '', payDate = DateMs 1739577600000, ytdTaxableWages = Some 10000,
        ytdFedWithheld = Some 1000, currentTaxableWages = None, currentFedWithheld = None\<rparr>
     \<notin> set objectPrototypeKeys
   \<and> consistentRanking
        [\<lparr>label = Some ''Acme'', payDate = DateMs 1736899200000, ytdTaxableWages = Some 5000,
        ytdFedWithheld = Some 500, currentTaxableWages = None, currentFedWithheld = None\<rparr>,
         \<lparr>label = Some '' acme '', payDate = DateMs 1739577600000, ytdTaxableWages = Some 10000,
        ytdFedWithheld = Some 1000, currentTaxableWages = None, currentFedWithheld = None\<rparr>]
   \<and> aggregatePaystubEntries (Some
        [\<lparr>label = Some ''Acme'', payDate = DateMs 1736899200000, ytdTaxableWages = Some 5000,
        ytdFedWithheld = Some 500, currentTaxableWages = None, currentFedWithheld = None\<rparr>,
         \<lparr>label = Some '' acme '', payDate = DateMs 1739577600000, ytdTaxableWages = Some 10000,
        ytdFedWithheld = Some 1000, currentTaxableWages = None, currentFedWithheld = None\<rparr>])
       = \<lparr>Totals.totalWages = 10000, Totals.totalWithheld = 1000\<rparr>
   \<and> aggregatePaystubEntries (Some
        [\<lparr>label = Some '' acme '', payDate = DateMs 1739577600000, ytdTaxableWages = Some 10000,
        ytdFedWithheld = Some 1000, currentTaxableWages = None, currentFedWithheld = None\<rparr>,
         \<lparr>label = Some ''Acme'', payDate = DateMs 1736899200000, ytdTaxableWages = Some 5000,
        ytdFedWithheld = Some 500, currentTaxableWages = None, currentFedWithheld = None\<rparr>])
       = \<lparr>Totals.totalWages = 10000, Totals.totalWithheld = 1000\<rparr>
   \<and> uniformDates
        [\<lparr>label = Some ''Beta LLC'', payDate = NoDate, ytdTaxableWages = Some 7000,
        ytdFedWithheld = Some 700, currentTaxableWages = None, currentFedWithheld = None\<rparr>,
         \<lparr>label = Some ''beta llc'', payDate = NoDate, ytdTaxableWages = Some 7000,
        ytdFedWithheld = Some 650, currentTaxableWages = None, currentFedWithheld = None\<rparr>]
   \<and> consistentRanking
        [\<lparr>label = Some ''Beta LLC'', payDate = NoDate, ytdTaxableWages = Some 7000,
        ytdFedWithheld = Some 700, currentTaxableWages = None, currentFedWithheld = None\<rparr>,
         \<lparr>label = Some ''beta llc'', payDate = NoDate, ytdTaxableWages = Some 7000,
        ytdFedWithheld = Some 650, currentTaxableWages = None, currentFedWithheld = None\<rparr>]
   \<and> consistentRanking
        [\<lparr>label = Some ''Acme'', payDate = DateMs 1736899200000, ytdTaxableWages = Some 5000,
        ytdFedWithheld = Some 500, currentTaxableWages = None, currentFedWithheld = None\<rparr>,
         \<lparr>label = Some ''Beta LLC'', payDate = NoDate, ytdTaxableWages = Some 7000,
        ytdFedWithheld = Some 700, currentTaxableWages = None, currentFedWithheld = None\<rparr>]
   \<and> employerKey \<lparr>label = Some ''Beta LLC'', payDate = NoDate, ytdTaxableWages = Some 7000,
        ytdFedWithheld = Some 700, currentTaxableWages = None, currentFedWithheld = None\<rparr>
     = employerKey \<lparr>label = Some ''beta llc'', payDate = NoDate, ytdTaxableWages = Some 7000,
        ytdFedWithheld = Some 650, currentTaxableWages = None, currentFedWithheld = None\<rparr>
   \<and> Totals.totalWages (aggregatePaystubEntries (Some
        [\<lparr>label = Some ''Beta LLC'', payDate = NoDate, ytdTaxableWages = Some 7000,
        ytdFedWithheld = Some 700, currentTaxableWages = None, currentFedWithheld = None\<rparr>,
         \<lparr>label = Some ''beta llc'', payDate = NoDate, ytdTaxableWages = Some 7000,
        ytdFedWithheld = Some 650, currentTaxableWages = None, currentFedWithheld = None\<rparr>])) = 7000"
proof -
  let ?A = "\<lparr>label = Some ''Acme'', payDate = DateMs 1736899200000, ytdTaxableWages = Some 5000,
        ytdFedWithheld = Some 500, currentTaxableWages = None, currentFedWithheld = None\<rparr>"
  let ?B = "\<lparr>label = Some '' acme '', payDate = DateMs 1739577600000, ytdTaxableWages = Some 10000,
        ytdFedWithheld = Some 1000, currentTaxableWages = None, currentFedWithheld = None\<rparr>"
  let ?C = "\<lparr>label = Some ''Beta LLC'', payDate = NoDate, ytdTaxableWages = Some 7000,
        ytdFedWithheld = Some 700, currentTaxableWages = None, currentFedWithheld = None\<rparr>"
  let ?D = "\<lparr>label = Some ''beta llc'', payDate = NoDate, ytdTaxableWages = Some 7000,
        ytdFedWithheld = Some 650, currentTaxableWages = None, currentFedWithheld = None\<rparr>"
  have kA: "employerKey ?A = ''acme''" by code_simp
  have kB: "employerKey ?B = ''acme''" by code_simp
  have kC: "employerKey ?C = ''beta llc''" by code_simp
  have kD: "employerKey ?D = ''beta llc''" by code_simp
  have own: "''acme'' \<notin> set objectPrototypeKeys" "''beta llc'' \<notin> set objectPrototypeKeys"
    by (simp_all add: objectPrototypeKeys_def)
  have oA: "employerKey ?A \<notin> set objectPrototypeKeys"
    and oB: "employerKey ?B \<notin> set objectPrototypeKeys"
    using own by (simp_all add: kA kB)
  have ownAB: "\<forall>e \<in> set [?A, ?B]. employerKey e \<notin> set objectPrototypeKeys"
    using own by (simp add: kA kB)
  have ownBA: "\<forall>e \<in> set [?B, ?A]. employerKey e \<notin> set objectPrototypeKeys"
    using own by (simp add: kA kB)
  have uCD: "uniformDates [?C, ?D]" by (simp add: uniformDates_def isDated_def)
  have dAC: "payDate ?A \<noteq> InvalidDate \<and> payDate ?C \<noteq> InvalidDate" by simp
  note th = one_stub_per_employer
    [of "[?A, ?B]" "[?C, ?D]" ?A ?C ?C ?D 7000 ?A ?B 1736899200000 1739577600000]
  note th' = one_stub_per_employer
    [of "[?B, ?A]" "[?A, ?B]" ?A ?B ?C ?D 7000 ?A ?B 1736899200000 1739577600000]
  note groups = th [THEN conjunct1, THEN mp, OF ownAB]
  note groups' = th' [THEN conjunct1, THEN mp, OF ownBA]
  note uniform = th [THEN conjunct2, THEN conjunct1]
  note pair = th [THEN conjunct2, THEN conjunct2, THEN conjunct1]
  note pair' = th' [THEN conjunct2, THEN conjunct2, THEN conjunct1]
  note same = th [THEN conjunct2, THEN conjunct2, THEN conjunct2, THEN conjunct1]
  note later = th [THEN conjunct2, THEN conjunct2, THEN conjunct2, THEN conjunct2]
  from uniform uCD have cCD: "consistentRanking [?C, ?D]" by (rule mp)
  from pair dAC have cAC: "consistentRanking [?A, ?C]" by (rule mp)
  have "payDate ?A \<noteq> InvalidDate \<and> payDate ?B \<noteq> InvalidDate" by simp
  with pair' have cAB: "consistentRanking [?A, ?B]" by (rule mp)
  have cBA: "consistentRanking [?B, ?A]"
    by (rule pair_consistent) simp_all
  have gAB: "employerGroup ''acme'' [?A, ?B] = [?A, ?B]"
    by (simp only: employerGroup_def kA kB filter.simps simp_thms if_True)
  have gBA: "employerGroup ''acme'' [?B, ?A] = [?B, ?A]"
    by (simp only: employerGroup_def kA kB filter.simps simp_thms if_True)
  have keysAB: "remdups (map employerKey [?A, ?B]) = [''acme'']"
    by (simp only: list.map kA kB) simp
  have keysBA: "remdups (map employerKey [?B, ?A]) = [''acme'']"
    by (simp only: list.map kA kB) simp
  have lAB: "latestStub [?A, ?B] = ?B"
    by (simp add: latestStub_pair comparePaystubs_def)
  have lBA: "latestStub [?B, ?A] = ?B"
    by (simp add: latestStub_pair comparePaystubs_def)
  from groups obtain sel where
    s: "\<forall>k \<in> set (map employerKey [?A, ?B]).
              sel k \<in> set (employerGroup k [?A, ?B])
              \<and> (consistentRanking (employerGroup k [?A, ?B]) \<longrightarrow>
                    sel k = latestStub (employerGroup k [?A, ?B])
                    \<and> (\<forall>e' \<in> set (employerGroup k [?A, ?B]). \<not> ranksBefore e' (sel k)))"
    and a: "aggregatePaystubEntries (Some [?A, ?B])
              = \<lparr>Totals.totalWages =
                   roundToDollar (\<Sum>k \<leftarrow> remdups (map employerKey [?A, ?B]). stubWages (sel k)),
                 Totals.totalWithheld =
                   roundToDollar (\<Sum>k \<leftarrow> remdups (map employerKey [?A, ?B]).
                                    stubWithheld (sel k))\<rparr>"
    by blast
  have "''acme'' \<in> set (map employerKey [?A, ?B])" by (simp only: list.map kA kB) simp
  with s have "consistentRanking (employerGroup ''acme'' [?A, ?B]) \<longrightarrow>
      sel ''acme'' = latestStub (employerGroup ''acme'' [?A, ?B])" by blast
  with cAB have "sel ''acme'' = ?B" by (simp only: gAB lAB)
  with a have aggAB: "aggregatePaystubEntries (Some [?A, ?B])
       = \<lparr>Totals.totalWages = 10000, Totals.totalWithheld = 1000\<rparr>"
    by (simp only: keysAB) (simp add: stubWages_def stubWithheld_def numOr_def)
  from groups' obtain sel' where
    s': "\<forall>k \<in> set (map employerKey [?B, ?A]).
              sel' k \<in> set (employerGroup k [?B, ?A])
              \<and> (consistentRanking (employerGroup k [?B, ?A]) \<longrightarrow>
                    sel' k = latestStub (employerGroup k [?B, ?A])
                    \<and> (\<forall>e' \<in> set (employerGroup k [?B, ?A]). \<not> ranksBefore e' (sel' k)))"
    and a': "aggregatePaystubEntries (Some [?B, ?A])
              = \<lparr>Totals.totalWages =
                   roundToDollar (\<Sum>k \<leftarrow> remdups (map employerKey [?B, ?A]). stubWages (sel' k)),
                 Totals.totalWithheld =
                   roundToDollar (\<Sum>k \<leftarrow> remdups (map employerKey [?B, ?A]).
                                    stubWithheld (sel' k))\<rparr>"
    by blast
  have "''acme'' \<in> set (map employerKey [?B, ?A])" by (simp only: list.map kA kB) simp
  with s' have "consistentRanking (employerGroup ''acme'' [?B, ?A]) \<longrightarrow>
      sel' ''acme'' = latestStub (employerGroup ''acme'' [?B, ?A])" by blast
  with cBA have "sel' ''acme'' = ?B" by (simp only: gBA lBA)
  with a' have aggBA: "aggregatePaystubEntries (Some [?B, ?A])
       = \<lparr>Totals.totalWages = 10000, Totals.totalWithheld = 1000\<rparr>"
    by (simp only: keysBA) (simp add: stubWages_def stubWithheld_def numOr_def)
  have "employerKey ?C = employerKey ?D \<and> employerKey ?C \<notin> set objectPrototypeKeys
      \<and> ytdTaxableWages ?C = Some 7000 \<and> ytdTaxableWages ?D = Some 7000 \<and> (7000 :: number) \<noteq> 0"
    using own by (simp add: kC kD)
  from same [THEN mp, OF this]
  have sCD: "Totals.totalWages (aggregatePaystubEntries (Some [?C, ?D])) = 7000"
    by simp
  have "employerKey ?A = employerKey ?B \<and> employerKey ?A \<notin> set objectPrototypeKeys
      \<and> payDate ?A = DateMs 1736899200000
      \<and> payDate ?B = DateMs 1739577600000 \<and> (1736899200000 :: int) < 1739577600000
      \<and> ytdTaxableWages ?A = Some 5000 \<and> ytdTaxableWages ?B = Some 10000"
    using own by (simp add: kA kB)
  from later [THEN mp, OF this]
  have w: "Totals.totalWages (aggregatePaystubEntries (Some [?A, ?B])) = 10000
      \<and> Totals.totalWages (aggregatePaystubEntries (Some [?B, ?A])) = 10000" .
  have k': "employerKey ?C = employerKey ?D" by (simp only: kC kD)
  from oA oB cAB aggAB aggBA uCD cCD cAC k' sCD show ?thesis by (intro conjI)
qed

text \<open>
  The claim as first stated, for every group, fails where only some entries of a group
  have a pay date: of three entries of one employer, dated Jan 15 with year-to-date wages
  9000, undated with 5000, and dated Feb 15 with 3000, the one of Jan 15 is selected and
  contributes 9000, although the entry of Feb 15 has the later date and both dates are
  present. In this group each entry has another that ranks before it, so that no selection
  is first in the order.
\<close>

theorem mixed_dates_counterexample:
  "aggregatePaystubEntries (Some
      [\<lparr>label = Some ''Acme'', payDate = DateMs 1736899200000, ytdTaxableWages = Some 9000,
        ytdFedWithheld = Some 900, currentTaxableWages = None, currentFedWithheld = None\<rparr>,
       \<lparr>label = Some ''Acme'', payDate = NoDate, ytdTaxableWages = Some 5000,
        ytdFedWithheld = Some 500, currentTaxableWages = None, currentFedWithheld = None\<rparr>,
       \<lparr>label = Some ''Acme'', payDate = DateMs 1739577600000, ytdTaxableWages = Some 3000,
        ytdFedWithheld = Some 300, currentTaxableWages = None, currentFedWithheld = None\<rparr>])
     = \<lparr>Totals.totalWages = 9000, Totals.totalWithheld = 900\<rparr>
   \<and> ranksBefore
       \<lparr>label = Some ''Acme'', payDate = DateMs 1739577600000, ytdTaxableWages = Some 3000,
        ytdFedWithheld = Some 300, currentTaxableWages = None, currentFedWithheld = None\<rparr>
       \<lparr>label = Some ''Acme'', payDate = DateMs 1736899200000, ytdTaxableWages = Some 9000,
        ytdFedWithheld = Some 900, currentTaxableWages = None, currentFedWithheld = None\<rparr>
   \<and> ranksBefore
       \<lparr>label = Some ''Acme'', payDate = DateMs 1736899200000, ytdTaxableWages = Some 9000,
        ytdFedWithheld = Some 900, currentTaxableWages = None, currentFedWithheld = None\<rparr>
       \<lparr>label = Some ''Acme'', payDate = NoDate, ytdTaxableWages = Some 5000,
        ytdFedWithheld = Some 500, currentTaxableWages = None, currentFedWithheld = None\<rparr>
   \<and> ranksBefore
       \<lparr>label = Some ''Acme'', payDate = NoDate, ytdTaxableWages = Some 5000,
        ytdFedWithheld = Some 500, currentTaxableWages = None, currentFedWithheld = None\<rparr>
       \<lparr>label = Some ''Acme'', payDate = DateMs 1739577600000, ytdTaxableWages = Some 3000,
        ytdFedWithheld = Some 300, currentTaxableWages = None, currentFedWithheld = None\<rparr>"
  by (simp add: aggregatePaystubEntries_def groupByEmployer_def employerKey_def addEmployer_def
      latestStub_def arraySort_def comparePaystubs_def stubWages_def stubWithheld_def numOr_def
      ranksBefore_def valueOr0_def)

end
